theory Spec2Isabelle
  imports Complex_Main "HOL-Library.Word"
begin

section \<open>Data model of \<^verbatim>\<open>api/src/services/audio.py\<close>\<close>

text \<open>
  Python floats are modelled as \<^typ>\<open>real\<close> (no rounding, no NaN, no infinities),
  Python ints as \<^typ>\<open>int\<close>, numpy \<^verbatim>\<open>int16\<close> samples as 16-bit words read with
  \<^const>\<open>sint\<close>, and \<^verbatim>\<open>bytes\<close> as lists of 8-bit words.
\<close>

type_synonym int16 = "16 word"
type_synonym bytes = "8 word list"

text \<open>
  Exceptions are values. Every exception of the module is a subclass of \<^verbatim>\<open>Exception\<close>;
  \<open>WriterError\<close> stands for whatever the encoder-writer raises.
\<close>

datatype exn =
    ValueError string
  | ZeroDivisionError
  | UnboundLocalError string
  | WriterError string

text \<open>\<^verbatim>\<open>str(e)\<close>, the message of an exception.\<close>

fun str_exn :: "exn \<Rightarrow> string" where
  "str_exn (ValueError m) = m"
| "str_exn ZeroDivisionError = ''float division by zero''"
| "str_exn (UnboundLocalError v) =
     ''cannot access local variable '' @ [CHR 0x27] @ v @ [CHR 0x27] @
     '' where it is not associated with a value''"
| "str_exn (WriterError m) = m"

text \<open>A word timestamp: the entries \<^verbatim>\<open>"word"\<close>, \<^verbatim>\<open>"start_time"\<close>, \<^verbatim>\<open>"end_time"\<close>.\<close>

record word_timestamp =
  word :: string
  start_time :: real
  end_time :: real

text \<open>
  \<^verbatim>\<open>AudioChunk\<close>: the sample array and the optional list of word timestamps. The array
  holds floats before normalization and \<^verbatim>\<open>int16\<close> afterwards, so the record is
  polymorphic in the sample type.
\<close>

record 'a audio_chunk =
  audio :: "'a list"
  word_timestamps :: "word_timestamp list option"

text \<open>
  Modelled from the spec: the configuration object \<^verbatim>\<open>settings\<close> of
  \<^verbatim>\<open>api/src/core/config.py\<close>, which is not among the sources. Only the three fields read
  by \<^verbatim>\<open>audio.py\<close> appear: the trim duration and the dynamic pad duration in
  milliseconds, and the table from trailing punctuation character to pad multiplier.
\<close>

record settings =
  gap_trim_ms :: int
  dynamic_gap_trim_padding_ms :: int
  dynamic_gap_trim_padding_char_multiplier :: "char \<rightharpoonup> real"

section \<open>Python primitives used by the module\<close>

text \<open>\<^verbatim>\<open>int(x)\<close> on a float and \<^verbatim>\<open>astype\<close> to an integer type truncate towards zero.\<close>

definition py_int :: "real \<Rightarrow> int" where
  "py_int x = (if 0 \<le> x then \<lfloor>x\<rfloor> else \<lceil>x\<rceil>)"

text \<open>\<^verbatim>\<open>np.clip(x, lo, hi)\<close> is \<^verbatim>\<open>minimum(maximum(x, lo), hi)\<close>.\<close>

definition np_clip :: "real \<Rightarrow> real \<Rightarrow> real \<Rightarrow> real" where
  "np_clip x lo hi = min (max x lo) hi"

text \<open>\<^verbatim>\<open>.astype(np.int16)\<close> of a float: truncation, then the 16-bit representation.\<close>

definition astype_int16 :: "real \<Rightarrow> int16" where
  "astype_int16 x = word_of_int (py_int x)"

text \<open>
  \<^verbatim>\<open>xs[start:stop]\<close>: a negative index counts from the end, and both indices are
  clamped to the sequence.
\<close>

definition slice_index :: "nat \<Rightarrow> int \<Rightarrow> int" where
  "slice_index n i = (if i < 0 then max (i + int n) 0 else min i (int n))"

definition py_slice :: "'a list \<Rightarrow> int \<Rightarrow> int \<Rightarrow> 'a list" where
  "py_slice xs start stop =
     (let s = slice_index (length xs) start; e = slice_index (length xs) stop
      in take (nat (e - s)) (drop (nat s) xs))"

text \<open>
  \<^verbatim>\<open>str.strip()\<close>: leading and trailing whitespace is removed. Characters are bytes here,
  so the whitespace is the ASCII one (tab, line feed, vertical tab, form feed, carriage
  return, the four separators \<open>0x1C\<close> to \<open>0x1F\<close>, and space).
\<close>

definition is_space :: "char \<Rightarrow> bool" where
  "is_space c = (c \<in> set [CHR 0x09, CHR 0x0A, CHR 0x0B, CHR 0x0C, CHR 0x0D,
                           CHR 0x1C, CHR 0x1D, CHR 0x1E, CHR 0x1F, CHR 0x20])"

definition strip :: "string \<Rightarrow> string" where
  "strip s = rev (dropWhile is_space (rev (dropWhile is_space s)))"

text \<open>\<^verbatim>\<open>str(n)\<close> of an integer, as the f-string of the writer key renders it.\<close>

function str_nat :: "nat \<Rightarrow> string" where
  "str_nat n =
     (if n < 10 then [''0123456789'' ! n]
      else str_nat (n div 10) @ [''0123456789'' ! (n mod 10)])"
  by pat_completeness auto
termination
  by (relation "measure id") auto

definition str_int :: "int \<Rightarrow> string" where
  "str_int i = (if i < 0 then CHR ''-'' # str_nat (nat (- i)) else str_nat (nat i))"

section \<open>\<^verbatim>\<open>AudioNormalizer\<close>\<close>

record normalizer =
  chunk_trim_ms :: int
  sample_rate :: int
  samples_to_trim :: int
  samples_to_pad_start :: int

text \<open>\<^verbatim>\<open>AudioNormalizer.__init__\<close>\<close>

definition AudioNormalizer_init :: "settings \<Rightarrow> normalizer" where
  "AudioNormalizer_init cfg =
     \<lparr> chunk_trim_ms = gap_trim_ms cfg,
       sample_rate = 24000,
       samples_to_trim = py_int (real_of_int (gap_trim_ms cfg * 24000) / 1000),
       samples_to_pad_start = py_int (real_of_int (50 * 24000) / 1000) \<rparr>"

text \<open>\<^verbatim>\<open>AudioNormalizer.normalize\<close> (\<open>normalize\<close> is a constant of HOL already).\<close>

definition normalize_audio :: "real list \<Rightarrow> exn + int16 list" where
  "normalize_audio audio_data =
     (if length audio_data = 0 then Inl (ValueError ''Empty audio data'')
      else Inr (map (\<lambda>x. astype_int16 (np_clip (x * 32767) (- 32768) 32767)) audio_data))"

subsection \<open>\<^verbatim>\<open>AudioNormalizer.find_first_last_non_silent\<close>\<close>

text \<open>
  Lines 43 to 48: the multiplier of the last character of the stripped chunk text, 1 when
  the text is blank or the character is not in the table.
\<close>

definition pad_multiplier :: "settings \<Rightarrow> string \<Rightarrow> real" where
  "pad_multiplier cfg chunk_text =
     (let split_character = strip chunk_text
      in if length split_character > 0
         then (case dynamic_gap_trim_padding_char_multiplier cfg (last split_character) of
                 Some m \<Rightarrow> m
               | None \<Rightarrow> 1)
         else 1)"

text \<open>Lines 50 to 53: \<^verbatim>\<open>samples_to_pad_end\<close>, before the division by the speed.\<close>

definition samples_to_pad_end :: "normalizer \<Rightarrow> settings \<Rightarrow> string \<Rightarrow> bool \<Rightarrow> int" where
  "samples_to_pad_end nz cfg chunk_text is_last_chunk =
     (if \<not> is_last_chunk
      then max (py_int (real_of_int (dynamic_gap_trim_padding_ms cfg * sample_rate nz)
                          * pad_multiplier cfg chunk_text / 1000)
                - samples_to_pad_start nz) 0
      else samples_to_pad_start nz)"

text \<open>
  Line 55: the threshold in dBFS as an amplitude; \<^verbatim>\<open>np.iinfo(np.int16).max\<close> is 32767.
\<close>

definition amplitude_threshold :: "int \<Rightarrow> real" where
  "amplitude_threshold silence_threshold_db =
     32767 * 10 powr (real_of_int silence_threshold_db / 20)"

text \<open>The test of both loops: \<^verbatim>\<open>audio_data[X] > amplitude_threshold\<close>.\<close>

definition above_threshold :: "real \<Rightarrow> int16 \<Rightarrow> bool" where
  "above_threshold thr x = (real_of_int (sint x) > thr)"

text \<open>
  Lines 59 to 62: the first index from \<open>X\<close> upwards whose sample is above the threshold;
  \<open>None\<close> when the loop ends without \<^verbatim>\<open>break\<close>.
\<close>

function scan_up :: "real \<Rightarrow> int16 list \<Rightarrow> nat \<Rightarrow> nat option" where
  "scan_up thr audio_data X =
     (if X < length audio_data
      then (if above_threshold thr (audio_data ! X) then Some X else scan_up thr audio_data (Suc X))
      else None)"
  by pat_completeness auto
termination
  by (relation "measure (\<lambda>(thr, audio_data, X). length audio_data - X)") auto

text \<open>
  Lines 64 to 67: the loop over \<^verbatim>\<open>range(len(audio_data) - 1, -1, -1)\<close>; \<open>scan_down thr xs n\<close>
  visits the indices \<open>n - 1\<close> down to 0.
\<close>

fun scan_down :: "real \<Rightarrow> int16 list \<Rightarrow> nat \<Rightarrow> nat option" where
  "scan_down thr audio_data 0 = None"
| "scan_down thr audio_data (Suc X) =
     (if above_threshold thr (audio_data ! X) then Some X else scan_down thr audio_data X)"

text \<open>
  Line 73: the pad after the last loud sample. Python raises \<^verbatim>\<open>ZeroDivisionError\<close> when
  the speed is 0, so the caller tests that first.
\<close>

definition trailing_pad :: "normalizer \<Rightarrow> settings \<Rightarrow> string \<Rightarrow> real \<Rightarrow> bool \<Rightarrow> int" where
  "trailing_pad nz cfg chunk_text speed is_last_chunk =
     \<lceil>real_of_int (samples_to_pad_end nz cfg chunk_text is_last_chunk) / speed\<rceil>"

definition find_first_last_non_silent ::
  "normalizer \<Rightarrow> settings \<Rightarrow> int16 list \<Rightarrow> string \<Rightarrow> real \<Rightarrow> int \<Rightarrow> bool \<Rightarrow> exn + (int \<times> int)" where
  "find_first_last_non_silent nz cfg audio_data chunk_text speed silence_threshold_db is_last_chunk =
     (let thr = amplitude_threshold silence_threshold_db
      in case (scan_up thr audio_data 0, scan_down thr audio_data (length audio_data)) of
           (Some non_silent_index_start, Some non_silent_index_end) \<Rightarrow>
             if speed = 0 then Inl ZeroDivisionError
             else Inr (max (int non_silent_index_start - samples_to_pad_start nz) 0,
                       min (int non_silent_index_end
                            + trailing_pad nz cfg chunk_text speed is_last_chunk)
                           (int (length audio_data)))
         | _ \<Rightarrow> Inr (0, int (length audio_data)))"

section \<open>\<^verbatim>\<open>AudioService\<close>\<close>

text \<open>
  Lines 148 to 149 and 193 to 194: \<^verbatim>\<open>if normalizer is None: normalizer = AudioNormalizer()\<close>
\<close>

definition normalizer_or_default :: "settings \<Rightarrow> normalizer option \<Rightarrow> normalizer" where
  "normalizer_or_default cfg normalizer =
     (case normalizer of None \<Rightarrow> AudioNormalizer_init cfg | Some n \<Rightarrow> n)"

text \<open>
  Lines 196 to 198: trim start and end if there are enough samples. The stop index is
  \<^verbatim>\<open>-samples_to_trim\<close>, which is 0 when \<^verbatim>\<open>samples_to_trim\<close> is 0.
\<close>

definition trim_start_end :: "normalizer \<Rightarrow> 'a list \<Rightarrow> 'a list" where
  "trim_start_end nz samples =
     (if int (length samples) > 2 * samples_to_trim nz
      then py_slice samples (samples_to_trim nz) (- samples_to_trim nz)
      else samples)"

text \<open>Lines 205 to 208: the shift of one timestamp; the divisor 24000 is a literal.\<close>

definition rebase :: "int \<Rightarrow> word_timestamp \<Rightarrow> word_timestamp" where
  "rebase start_index timestamp =
     timestamp\<lparr> start_time := start_time timestamp - real_of_int start_index / 24000,
                end_time := end_time timestamp - real_of_int start_index / 24000 \<rparr>"

text \<open>\<^verbatim>\<open>AudioService.trim_audio\<close>; the threshold is left at its default of -45 dB.\<close>

definition trim_audio ::
  "settings \<Rightarrow> int16 audio_chunk \<Rightarrow> string \<Rightarrow> real \<Rightarrow> bool \<Rightarrow> normalizer option
     \<Rightarrow> exn + int16 audio_chunk" where
  "trim_audio cfg audio_chunk chunk_text speed is_last_chunk normalizer =
     (let nz = normalizer_or_default cfg normalizer;
          trimmed = trim_start_end nz (audio audio_chunk)
      in case find_first_last_non_silent nz cfg trimmed chunk_text speed (- 45) is_last_chunk of
           Inl e \<Rightarrow> Inl e
         | Inr (start_index, end_index) \<Rightarrow>
             Inr (audio_chunk\<lparr> audio := py_slice trimmed start_index end_index,
                               word_timestamps :=
                                 map_option (map (rebase start_index))
                                   (word_timestamps audio_chunk) \<rparr>))"

text \<open>
  Modelled from the spec: the encoder-writer \<^verbatim>\<open>StreamingAudioWriter\<close> of
  \<^verbatim>\<open>api/src/services/streaming_audio_writer.py\<close>, which is not among the sources. It is a
  parameter: a constructor from format and sample rate, \<^verbatim>\<open>write_chunk(samples)\<close> and
  \<^verbatim>\<open>write_chunk(finalize=True)\<close>, each of which may raise. A write or a finalize also
  yields the writer's next internal state, whether it raised or not.
\<close>

record 'w writer_ops =
  new_writer :: "string \<Rightarrow> int \<Rightarrow> exn + 'w"
  write_chunk :: "'w \<Rightarrow> int16 list \<Rightarrow> (exn + bytes) \<times> 'w"
  finalize_chunk :: "'w \<Rightarrow> (exn + bytes) \<times> 'w"

text \<open>
  The shared state: the class-level dictionary \<^verbatim>\<open>_writers\<close>, and a log of the calls made
  to the encoder-writer (the log is not in the source; it records each constructor, write
  and finalize call in the order the service makes them).
\<close>

datatype writer_call =
    Construct string int
  | WriteChunk string
  | FinalizeChunk string

record 'w service =
  writers :: "string \<rightharpoonup> 'w"
  writer_calls :: "writer_call list"

definition SUPPORTED_FORMATS :: "string set" where
  "SUPPORTED_FORMATS = {''wav'', ''mp3'', ''opus'', ''flac'', ''aac'', ''pcm'', ''ogg''}"

text \<open>
  Line 155: \<^verbatim>\<open>f"{output_format}_{sample_rate}"\<close>. The parameter \<^verbatim>\<open>sample_rate\<close> of
  \<^verbatim>\<open>convert_audio\<close> is called \<open>rate\<close>, the name \<open>sample_rate\<close> being the field of the
  normalizer.
\<close>

definition writer_key :: "string \<Rightarrow> int \<Rightarrow> string" where
  "writer_key output_format rate = output_format @ ''_'' @ str_int rate"

text \<open>Lines 156 to 160: get or create the format-specific writer.\<close>

definition get_or_create_writer ::
  "'w writer_ops \<Rightarrow> 'w service \<Rightarrow> string \<Rightarrow> int \<Rightarrow> bool \<Rightarrow> (exn + 'w) \<times> 'w service" where
  "get_or_create_writer W S output_format rate is_first_chunk =
     (let key = writer_key output_format rate
      in case (if is_first_chunk then None else writers S key) of
           None \<Rightarrow>
             (let S1 = S\<lparr> writer_calls :=
                           writer_calls S @ [Construct output_format rate] \<rparr>
              in case new_writer W output_format rate of
                   Inl e \<Rightarrow> (Inl e, S1)
                 | Inr w \<Rightarrow> (Inr w, S1\<lparr> writers := (writers S1)(key \<mapsto> w) \<rparr>))
         | Some w \<Rightarrow> (Inr w, S))"

text \<open>
  Lines 162 to 164: the write, skipped for an empty array; then \<^verbatim>\<open>chunk_data\<close> stays
  unbound, which is \<open>None\<close> here. The writer object lives in the dictionary, so its new
  state is stored there.
\<close>

definition write_audio ::
  "'w writer_ops \<Rightarrow> 'w service \<Rightarrow> string \<Rightarrow> 'w \<Rightarrow> int16 list
     \<Rightarrow> (exn + bytes option) \<times> 'w \<times> 'w service" where
  "write_audio W S key w samples =
     (if length samples > 0
      then (case write_chunk W w samples of
              (r, w') \<Rightarrow>
                (let S1 = S\<lparr> writers := (writers S)(key \<mapsto> w'),
                             writer_calls := writer_calls S @ [WriteChunk key] \<rparr>
                 in case r of
                      Inl e \<Rightarrow> (Inl e, w', S1)
                    | Inr chunk_data \<Rightarrow> (Inr (Some chunk_data), w', S1)))
      else (Inr None, w, S))"

text \<open>
  Lines 142 to 172: the body of the \<^verbatim>\<open>try\<close>. The result is the exception raised or the
  returned pair, together with the state of the service afterwards.
\<close>

definition convert_audio_try ::
  "'w writer_ops \<Rightarrow> settings \<Rightarrow> 'w service \<Rightarrow> real audio_chunk \<Rightarrow> int \<Rightarrow> string \<Rightarrow> real
     \<Rightarrow> string \<Rightarrow> bool \<Rightarrow> bool \<Rightarrow> normalizer option
     \<Rightarrow> (exn + bytes \<times> int16 audio_chunk) \<times> 'w service" where
  "convert_audio_try W cfg S audio_chunk rate output_format speed chunk_text
       is_first_chunk is_last_chunk normalizer =
     (if output_format \<notin> SUPPORTED_FORMATS
      then (Inl (ValueError (''Format '' @ output_format @ '' not supported'')), S)
      else
        let nz = normalizer_or_default cfg normalizer
        in case normalize_audio (audio audio_chunk) of
             Inl e \<Rightarrow> (Inl e, S)
           | Inr normalized \<Rightarrow>
        (case trim_audio cfg \<lparr> audio = normalized,
                                word_timestamps = word_timestamps audio_chunk \<rparr>
                chunk_text speed is_last_chunk (Some nz) of
             Inl e \<Rightarrow> (Inl e, S)
           | Inr chunk \<Rightarrow>
        (case get_or_create_writer W S output_format rate is_first_chunk of
             (Inl e, S1) \<Rightarrow> (Inl e, S1)
           | (Inr w, S1) \<Rightarrow>
        (case write_audio W S1 (writer_key output_format rate) w (audio chunk) of
             (Inl e, w2, S2) \<Rightarrow> (Inl e, S2)
           | (Inr chunk_data, w2, S2) \<Rightarrow>
        (if is_last_chunk
         then (case finalize_chunk W w2 of
                 (r, w3) \<Rightarrow>
                   (let key = writer_key output_format rate;
                        S3 = S2\<lparr> writers := (writers S2)(key \<mapsto> w3),
                                 writer_calls := writer_calls S2 @ [FinalizeChunk key] \<rparr>
                    in case r of
                         Inl e \<Rightarrow> (Inl e, S3)
                       | Inr final_data \<Rightarrow>
                           (Inr (if final_data \<noteq> [] then final_data else [], chunk),
                            S3\<lparr> writers := (writers S3)(key := None) \<rparr>)))
         else (case chunk_data of
                 None \<Rightarrow> (Inl (UnboundLocalError ''chunk_data''), S2)
               | Some data \<Rightarrow> (Inr (if data \<noteq> [] then data else [], chunk), S2)))))))"

text \<open>
  \<^verbatim>\<open>AudioService.convert_audio\<close>: the \<^verbatim>\<open>try\<close> body under the handler of lines 174 to
  178, which turns every exception into one \<^verbatim>\<open>ValueError\<close> whose message names the
  format and the message of the cause.
\<close>

definition conversion_failed :: "string \<Rightarrow> exn \<Rightarrow> exn" where
  "conversion_failed output_format e =
     ValueError (''Failed to convert audio stream to '' @ output_format @ '': '' @ str_exn e)"

definition convert_audio ::
  "'w writer_ops \<Rightarrow> settings \<Rightarrow> 'w service \<Rightarrow> real audio_chunk \<Rightarrow> int \<Rightarrow> string \<Rightarrow> real
     \<Rightarrow> string \<Rightarrow> bool \<Rightarrow> bool \<Rightarrow> normalizer option
     \<Rightarrow> (exn + bytes \<times> int16 audio_chunk) \<times> 'w service" where
  "convert_audio W cfg S audio_chunk rate output_format speed chunk_text
       is_first_chunk is_last_chunk normalizer =
     (case convert_audio_try W cfg S audio_chunk rate output_format speed chunk_text
             is_first_chunk is_last_chunk normalizer of
        (Inl e, S') \<Rightarrow> (Inl (conversion_failed output_format e), S')
      | (Inr result, S') \<Rightarrow> (Inr result, S'))"

section \<open>Reference notions and example inputs\<close>

text \<open>
  The reading of "a sample exceeds the threshold" by its magnitude, in the words of the
  specification; the source compares the signed sample (\<open>above_threshold\<close>).
\<close>

definition magnitude_above :: "real \<Rightarrow> int16 \<Rightarrow> bool" where
  "magnitude_above thr x = (real_of_int \<bar>sint x\<bar> > thr)"

text \<open>
  A configuration used for the concrete evaluations below: 1 ms of trim, 410 ms of dynamic
  pad, and a comma mapped to the multiplier 2.
\<close>

abbreviation example_settings :: settings where
  "example_settings \<equiv>
     \<lparr> gap_trim_ms = 1, dynamic_gap_trim_padding_ms = 410,
       dynamic_gap_trim_padding_char_multiplier = [CHR '','' \<mapsto> 2] \<rparr>"

text \<open>
  A configuration without head and tail trim: \<^verbatim>\<open>samples_to_trim\<close> is 0, and the slice
  \<^verbatim>\<open>audio[0:-0]\<close> of line 198 is then empty.
\<close>

abbreviation zero_trim_settings :: settings where
  "zero_trim_settings \<equiv>
     \<lparr> gap_trim_ms = 0, dynamic_gap_trim_padding_ms = 410,
       dynamic_gap_trim_padding_char_multiplier = Map.empty \<rparr>"

text \<open>
  Two encoder-writers whose internal state is the number of samples written so far: one
  that always succeeds, and one whose write raises. Then a service without any writer.
\<close>

abbreviation counting_writer :: "nat writer_ops" where
  "counting_writer \<equiv>
     \<lparr> new_writer = (\<lambda>_ _. Inr 0),
       write_chunk = (\<lambda>w samples. (Inr [1], w + length samples)),
       finalize_chunk = (\<lambda>w. (Inr [2], w)) \<rparr>"

abbreviation failing_writer :: "nat writer_ops" where
  "failing_writer \<equiv>
     \<lparr> new_writer = (\<lambda>_ _. Inr 0),
       write_chunk = (\<lambda>w _. (Inl (WriterError ''disk full''), w)),
       finalize_chunk = (\<lambda>w. (Inr [2], w)) \<rparr>"

abbreviation no_writers :: "nat service" where
  "no_writers \<equiv> \<lparr> writers = Map.empty, writer_calls = [] \<rparr>"

text \<open>
  An encoder-writer whose finalize raises, and a service that still holds a writer under
  the key of 24 kHz wav.
\<close>

abbreviation failing_finalizer :: "nat writer_ops" where
  "failing_finalizer \<equiv>
     \<lparr> new_writer = (\<lambda>_ _. Inr 0),
       write_chunk = (\<lambda>w samples. (Inr [1], w + length samples)),
       finalize_chunk = (\<lambda>w. (Inl (WriterError ''encoder closed''), w)) \<rparr>"

abbreviation stale_writer :: "nat service" where
  "stale_writer \<equiv> \<lparr> writers = [''wav_24000'' \<mapsto> 7], writer_calls = [] \<rparr>"

declare scan_up.simps [simp del]

section \<open>Properties of the primitives\<close>

lemma py_int_bounds:
  assumes "real_of_int lo \<le> x" and "x \<le> real_of_int hi"
  shows "lo \<le> py_int x" and "py_int x \<le> hi"
proof -
  show "lo \<le> py_int x"
    using assms(1) by (auto simp: py_int_def le_floor_iff le_ceiling_iff)
  show "py_int x \<le> hi"
    using assms(2) by (auto simp: py_int_def floor_le_iff ceiling_le_iff)
qed

lemma py_int_of_int [simp]: "py_int (real_of_int k) = k"
  by (simp add: py_int_def)

lemma sint_astype_int16:
  assumes "- 32768 \<le> x" and "x \<le> 32767"
  shows "sint (astype_int16 x) = py_int x"
proof -
  have "- 32768 \<le> py_int x" and "py_int x \<le> 32767"
    using py_int_bounds [of "- 32768" x 32767] assms by simp_all
  then show ?thesis
    by (simp add: astype_int16_def sint_sbintrunc' signed_take_bit_int_eq_self)
qed

lemma np_clip_bounds: "lo \<le> hi \<Longrightarrow> lo \<le> np_clip x lo hi \<and> np_clip x lo hi \<le> hi"
  by (simp add: np_clip_def)

section \<open>The silence threshold\<close>

text \<open>
  At the default of -45 dB the threshold is \<open>32767 * 10 powr (- 9 / 4)\<close>, about 184.26:
  its fourth power is \<open>32767 ^ 4 / 10 ^ 9\<close>, which lies between \<open>184 ^ 4\<close> and \<open>185 ^ 4\<close>.
\<close>

lemma threshold_pow4: "amplitude_threshold (- 45) ^ 4 = 32767 ^ 4 / 10 ^ 9"
proof -
  have pos: "(0::real) < 10 powr (- 9 / 4)" by simp
  have "(10 powr (- 9 / 4 :: real)) ^ 4 = (10 powr (- 9 / 4)) powr (real 4)"
    using powr_realpow [OF pos, of 4] by simp
  also have "\<dots> = 10 powr (- 9 :: real)"
    by (simp add: powr_powr)
  also have "\<dots> = 1 / 10 ^ 9"
    by (simp add: powr_minus_divide)
  finally have "(10 powr (- 9 / 4 :: real)) ^ 4 = 1 / 10 ^ 9" .
  then show ?thesis
    by (simp add: amplitude_threshold_def power_mult_distrib)
qed

lemma threshold_bounds: "184 < amplitude_threshold (- 45)" "amplitude_threshold (- 45) < 185"
proof -
  have pos: "0 \<le> amplitude_threshold (- 45)"
    by (simp add: amplitude_threshold_def)
  have "(184::real) ^ 4 < amplitude_threshold (- 45) ^ 4"
    by (simp add: threshold_pow4)
  then show "184 < amplitude_threshold (- 45)"
    using pos by (rule power_less_imp_less_base)
  have "amplitude_threshold (- 45) ^ 4 < (185::real) ^ 4"
    by (simp add: threshold_pow4)
  then show "amplitude_threshold (- 45) < 185"
    by (rule power_less_imp_less_base) simp
qed

lemma above_default: "above_threshold (amplitude_threshold (- 45)) x \<longleftrightarrow> 185 \<le> sint x"
proof
  assume "above_threshold (amplitude_threshold (- 45)) x"
  then have "184 < real_of_int (sint x)"
    using threshold_bounds(1) by (simp add: above_threshold_def)
  then show "185 \<le> sint x" by linarith
next
  assume "185 \<le> sint x"
  then have "185 \<le> real_of_int (sint x)" by linarith
  then show "above_threshold (amplitude_threshold (- 45)) x"
    using threshold_bounds(2) by (simp add: above_threshold_def)
qed

section \<open>The two scans\<close>

lemma scan_up_None_iff:
  "scan_up thr xs k = None \<longleftrightarrow> (\<forall>j. k \<le> j \<and> j < length xs \<longrightarrow> \<not> above_threshold thr (xs ! j))"
proof (induction thr xs k rule: scan_up.induct)
  case (1 thr xs k)
  show ?case
  proof (cases "k < length xs")
    case False
    then show ?thesis by (auto simp: scan_up.simps [of thr xs k])
  next
    case True
    show ?thesis
    proof (cases "above_threshold thr (xs ! k)")
      case True
      with \<open>k < length xs\<close> show ?thesis
        by (auto simp: scan_up.simps [of thr xs k])
    next
      case False
      have "(\<forall>j. k \<le> j \<and> j < length xs \<longrightarrow> \<not> above_threshold thr (xs ! j))
              \<longleftrightarrow> (\<forall>j. Suc k \<le> j \<and> j < length xs \<longrightarrow> \<not> above_threshold thr (xs ! j))"
        using False by (metis Suc_leI le_neq_implies_less Suc_leD)
      with 1 True False show ?thesis
        by (simp add: scan_up.simps [of thr xs k])
    qed
  qed
qed

lemma scan_up_Some_iff:
  "scan_up thr xs k = Some i \<longleftrightarrow>
     k \<le> i \<and> i < length xs \<and> above_threshold thr (xs ! i) \<and> (\<forall>j. k \<le> j \<and> j < i \<longrightarrow> \<not> above_threshold thr (xs ! j))"
proof (induction thr xs k rule: scan_up.induct)
  case (1 thr xs k)
  show ?case
  proof (cases "k < length xs")
    case False
    then show ?thesis by (auto simp: scan_up.simps [of thr xs k])
  next
    case True
    show ?thesis
    proof (cases "above_threshold thr (xs ! k)")
      case True
      with \<open>k < length xs\<close> show ?thesis
        by (auto simp: scan_up.simps [of thr xs k] intro: le_antisym leI)
    next
      case False
      have "(k \<le> i \<and> i < length xs \<and> above_threshold thr (xs ! i) \<and> (\<forall>j. k \<le> j \<and> j < i \<longrightarrow> \<not> above_threshold thr (xs ! j)))
          \<longleftrightarrow> (Suc k \<le> i \<and> i < length xs \<and> above_threshold thr (xs ! i) \<and> (\<forall>j. Suc k \<le> j \<and> j < i \<longrightarrow> \<not> above_threshold thr (xs ! j)))"
        using False by (metis Suc_leI le_neq_implies_less Suc_leD)
      with 1 True False show ?thesis
        by (simp add: scan_up.simps [of thr xs k])
    qed
  qed
qed

lemma scan_down_None_iff:
  "scan_down thr xs n = None \<longleftrightarrow> (\<forall>j < n. \<not> above_threshold thr (xs ! j))"
  by (induction n) (auto simp: less_Suc_eq)

lemma scan_down_Some_iff:
  "scan_down thr xs n = Some i \<longleftrightarrow>
     i < n \<and> above_threshold thr (xs ! i) \<and> (\<forall>j. i < j \<and> j < n \<longrightarrow> \<not> above_threshold thr (xs ! j))"
proof (induction n)
  case 0
  then show ?case by simp
next
  case (Suc n)
  show ?case
  proof (cases "above_threshold thr (xs ! n)")
    case True
    then show ?thesis
      by (auto simp: less_Suc_eq intro: le_antisym leI) 
  next
    case False
    have "(i < Suc n \<and> above_threshold thr (xs ! i) \<and> (\<forall>j. i < j \<and> j < Suc n \<longrightarrow> \<not> above_threshold thr (xs ! j)))
       \<longleftrightarrow> (i < n \<and> above_threshold thr (xs ! i) \<and> (\<forall>j. i < j \<and> j < n \<longrightarrow> \<not> above_threshold thr (xs ! j)))"
      using False by (metis less_Suc_eq)
    with Suc False show ?thesis by simp
  qed
qed

section \<open>The normalizer's constants and the pads\<close>

lemma init_samples_to_pad_start [simp]: "samples_to_pad_start (AudioNormalizer_init cfg) = 1200"
  by (simp add: AudioNormalizer_init_def py_int_def)

lemma init_sample_rate [simp]: "sample_rate (AudioNormalizer_init cfg) = 24000"
  by (simp add: AudioNormalizer_init_def)

lemma init_samples_to_trim [simp]:
  "samples_to_trim (AudioNormalizer_init cfg) = 24 * gap_trim_ms cfg"
proof -
  have "real_of_int (gap_trim_ms cfg * 24000) / 1000 = real_of_int (24 * gap_trim_ms cfg)"
    by simp
  then show ?thesis
    by (simp only: AudioNormalizer_init_def normalizer.simps py_int_of_int)
qed

lemma samples_to_pad_end_nonneg:
  "0 \<le> samples_to_pad_end (AudioNormalizer_init c0) cfg chunk_text is_last_chunk"
  by (simp add: samples_to_pad_end_def)

lemma trailing_pad_nonneg:
  assumes "0 < speed"
  shows "0 \<le> trailing_pad (AudioNormalizer_init c0) cfg chunk_text speed is_last_chunk"
proof -
  have "0 \<le> real_of_int (samples_to_pad_end (AudioNormalizer_init c0) cfg chunk_text is_last_chunk) / speed"
    using assms samples_to_pad_end_nonneg [of c0 cfg chunk_text is_last_chunk] by simp
  then show ?thesis
    unfolding trailing_pad_def by (simp add: le_ceiling_iff) 
qed

lemma locator_silent:
  assumes "\<forall>j < length xs. \<not> above_threshold (amplitude_threshold db) (xs ! j)"
  shows "find_first_last_non_silent nz cfg xs chunk_text speed db is_last_chunk
           = Inr (0, int (length xs))"
proof -
  have "scan_up (amplitude_threshold db) xs 0 = None"
    using assms by (simp add: scan_up_None_iff)
  then show ?thesis
    by (simp add: find_first_last_non_silent_def)
qed

lemma locator_loud:
  assumes "scan_up (amplitude_threshold db) xs 0 = Some i"
    and "scan_down (amplitude_threshold db) xs (length xs) = Some k"
    and "speed \<noteq> 0"
  shows "find_first_last_non_silent nz cfg xs chunk_text speed db is_last_chunk
           = Inr (max (int i - samples_to_pad_start nz) 0,
                  min (int k + trailing_pad nz cfg chunk_text speed is_last_chunk)
                      (int (length xs)))"
  using assms by (simp add: find_first_last_non_silent_def)

lemma scans_agree:
  "scan_up thr xs 0 = None \<longleftrightarrow> scan_down thr xs (length xs) = None"
  by (simp add: scan_up_None_iff scan_down_None_iff)

lemma scan_up_le_scan_down:
  assumes "scan_up thr xs 0 = Some i" and "scan_down thr xs (length xs) = Some k"
  shows "i \<le> k" and "k < length xs"
proof -
  from assms(2) show "k < length xs" by (simp add: scan_down_Some_iff)
  show "i \<le> k"
  proof (rule ccontr)
    assume "\<not> i \<le> k"
    then have "k < i" by simp
    moreover from assms(2) have "above_threshold thr (xs ! k)" by (simp add: scan_down_Some_iff)
    moreover from assms(1) have "\<forall>j. 0 \<le> j \<and> j < i \<longrightarrow> \<not> above_threshold thr (xs ! j)"
      by (simp add: scan_up_Some_iff)
    ultimately show False by blast
  qed
qed

lemma locator_cases:
  obtains (silent) "scan_up (amplitude_threshold db) xs 0 = None"
      "scan_down (amplitude_threshold db) xs (length xs) = None"
  | (loud) i k where "scan_up (amplitude_threshold db) xs 0 = Some i"
      "scan_down (amplitude_threshold db) xs (length xs) = Some k"
  using scans_agree [of "amplitude_threshold db" xs] by (cases "scan_up (amplitude_threshold db) xs 0"; cases "scan_down (amplitude_threshold db) xs (length xs)") auto

section \<open>Evaluating the scans on concrete buffers\<close>

lemma py_int_numeral [simp]: "py_int (numeral n) = numeral n"
  by (simp add: py_int_def)

lemma py_int_0 [simp]: "py_int 0 = 0"
  by (simp add: py_int_def)

lemma scan_down_skip:
  assumes "\<forall>j. k \<le> j \<and> j < n \<longrightarrow> \<not> above_threshold thr (xs ! j)" and "k \<le> n"
  shows "scan_down thr xs n = scan_down thr xs k"
  using assms
proof (induction n)
  case 0
  then show ?case by simp
next
  case (Suc n)
  show ?case
  proof (cases "k = Suc n")
    case True
    then show ?thesis by simp
  next
    case False
    with Suc.prems have "k \<le> n" by simp
    moreover from Suc.prems \<open>k \<le> n\<close> have "\<not> above_threshold thr (xs ! n)" by simp
    moreover from Suc.prems have "\<forall>j. k \<le> j \<and> j < n \<longrightarrow> \<not> above_threshold thr (xs ! j)" by simp
    ultimately show ?thesis using Suc.IH by simp
  qed
qed

lemma scan_up_first: "xs \<noteq> [] \<Longrightarrow> above_threshold thr (xs ! 0) \<Longrightarrow> scan_up thr xs 0 = Some 0"
  by (simp add: scan_up.simps [of thr xs 0])

lemma first_last_scans:
  assumes "i < length xs" "above_threshold thr (xs ! i)" "\<forall>j < i. \<not> above_threshold thr (xs ! j)"
    and "k < length xs" "above_threshold thr (xs ! k)"
        "\<forall>j. k < j \<and> j < length xs \<longrightarrow> \<not> above_threshold thr (xs ! j)"
  shows "scan_up thr xs 0 = Some i" and "scan_down thr xs (length xs) = Some k"
  using assms by (simp_all add: scan_up_Some_iff scan_down_Some_iff)

lemma scans_loud_head:
  assumes "xs \<noteq> []" and "above_threshold thr (xs ! 0)"
    and "\<forall>j. 1 \<le> j \<and> j < length xs \<longrightarrow> \<not> above_threshold thr (xs ! j)"
  shows "scan_up thr xs 0 = Some 0" and "scan_down thr xs (length xs) = Some 0"
proof -
  show "scan_up thr xs 0 = Some 0"
    using assms(1,2) by (rule scan_up_first)
  have "1 \<le> length xs"
    using assms(1) by (simp add: Suc_le_eq)
  with assms(3) have "scan_down thr xs (length xs) = scan_down thr xs 1"
    by (rule scan_down_skip)
  also have "\<dots> = Some 0"
    using assms(2) by simp
  finally show "scan_down thr xs (length xs) = Some 0" .
qed

lemma scan_up_skip:
  assumes "\<forall>j. k \<le> j \<and> j < m \<longrightarrow> \<not> above_threshold thr (xs ! j)" and "k \<le> m"
  shows "scan_up thr xs k = scan_up thr xs m"
proof (cases "scan_up thr xs m")
  case None
  then have "\<forall>j. m \<le> j \<and> j < length xs \<longrightarrow> \<not> above_threshold thr (xs ! j)"
    by (simp add: scan_up_None_iff)
  with assms(1) have "\<forall>j. k \<le> j \<and> j < length xs \<longrightarrow> \<not> above_threshold thr (xs ! j)"
    by (metis not_le_imp_less)
  then have "scan_up thr xs k = None"
    by (simp add: scan_up_None_iff)
  with None show ?thesis by simp
next
  case (Some i)
  then have i: "m \<le> i" "i < length xs" "above_threshold thr (xs ! i)"
    "\<forall>j. m \<le> j \<and> j < i \<longrightarrow> \<not> above_threshold thr (xs ! j)"
    by (simp_all add: scan_up_Some_iff)
  from assms(1) i(4) have "\<forall>j. k \<le> j \<and> j < i \<longrightarrow> \<not> above_threshold thr (xs ! j)"
    by (metis not_le_imp_less)
  with i assms(2) have "scan_up thr xs k = Some i"
    by (simp add: scan_up_Some_iff)
  with Some show ?thesis by simp
qed

lemma locator_returns:
  assumes "speed \<noteq> 0"
  shows "\<exists>s e. find_first_last_non_silent nz cfg xs chunk_text speed db is_last_chunk = Inr (s, e)"
  using assms
  by (cases rule: locator_cases [of db xs]) (simp_all add: find_first_last_non_silent_def)

lemma trim_audio_returns:
  assumes "speed \<noteq> 0"
  shows "\<exists>chunk'. trim_audio cfg audio_chunk chunk_text speed is_last_chunk normalizer = Inr chunk'"
proof -
  obtain s e where
    "find_first_last_non_silent (normalizer_or_default cfg normalizer) cfg
       (trim_start_end (normalizer_or_default cfg normalizer) (audio audio_chunk))
       chunk_text speed (- 45) is_last_chunk = Inr (s, e)"
    using locator_returns [OF assms] by blast
  then show ?thesis
    by (simp add: trim_audio_def)
qed

lemma scans_single_peak:
  assumes "\<not> above_threshold thr q" and "above_threshold thr p"
  shows "scan_up thr (replicate a q @ p # replicate b q) 0 = Some a"
    and "scan_down thr (replicate a q @ p # replicate b q)
           (length (replicate a q @ p # replicate b q)) = Some a"
proof -
  let ?xs = "replicate a q @ p # replicate b q"
  have nth: "?xs ! j = (if j = a then p else q)" if "j < length ?xs" for j
    using that by (auto simp: nth_append nth_Cons')
  have len: "a < length ?xs" by simp
  have peak: "above_threshold thr (?xs ! a)"
    using assms(2) by (simp add: nth_append)
  have quiet: "\<not> above_threshold thr (?xs ! j)" if "j < length ?xs" "j \<noteq> a" for j
    using nth [OF that(1)] that(2) assms(1) by metis
  show "scan_up thr ?xs 0 = Some a"
    unfolding scan_up_Some_iff using len peak quiet by auto
  show "scan_down thr ?xs (length ?xs) = Some a"
    unfolding scan_down_Some_iff using len peak quiet by auto
qed

section \<open>Steps of the conversion\<close>

lemma writer_key_wav: "writer_key ''wav'' 24000 = ''wav_24000''"
  by (simp add: writer_key_def str_int_def)

lemma convert_audio_Inl:
  "convert_audio W cfg S c rate fmt speed txt first lst nzo = (Inl err, S') \<longleftrightarrow>
   (\<exists>cause. convert_audio_try W cfg S c rate fmt speed txt first lst nzo = (Inl cause, S')
       \<and> err = conversion_failed fmt cause)"
  by (auto simp: convert_audio_def split: prod.splits sum.splits)

lemma convert_audio_Inr:
  "convert_audio W cfg S c rate fmt speed txt first lst nzo = (Inr r, S') \<longleftrightarrow>
   convert_audio_try W cfg S c rate fmt speed txt first lst nzo = (Inr r, S')"
  by (auto simp: convert_audio_def split: prod.splits sum.splits)

lemma normalize_half: "normalize_audio [1 / 2] = Inr [16383]"
  by (simp add: normalize_audio_def np_clip_def astype_int16_def py_int_def)

lemma get_or_create_writer_cases:
  assumes "get_or_create_writer W S output_format rate is_first_chunk = (r, S1)"
  shows "(\<exists>w. r = Inr w \<and> S1 = S \<and> \<not> is_first_chunk
              \<and> writers S (writer_key output_format rate) = Some w)
       \<or> (\<exists>e. r = Inl e \<and> new_writer W output_format rate = Inl e
              \<and> S1 = S\<lparr> writer_calls := writer_calls S @ [Construct output_format rate] \<rparr>)
       \<or> (\<exists>w. r = Inr w \<and> new_writer W output_format rate = Inr w
              \<and> S1 = S\<lparr> writers := (writers S)(writer_key output_format rate \<mapsto> w),
                        writer_calls := writer_calls S @ [Construct output_format rate] \<rparr>)"
proof (cases "new_writer W output_format rate")
  case (Inl e)
  with assms show ?thesis
    by (auto simp: get_or_create_writer_def Let_def split: option.splits if_splits)
next
  case (Inr w)
  with assms show ?thesis
    by (auto simp: get_or_create_writer_def Let_def split: option.splits if_splits)
qed

lemma trim_zero:
  "trim_audio zero_trim_settings \<lparr> audio = [16383], word_timestamps = None \<rparr> [] 1 False
     (Some (normalizer_or_default zero_trim_settings None))
   = Inr \<lparr> audio = [], word_timestamps = None \<rparr>"
  by (simp add: trim_audio_def normalizer_or_default_def trim_start_end_def py_slice_def
        slice_index_def locator_silent scan_up_None_iff)

lemma get_or_create_writer_state:
  assumes "get_or_create_writer W S output_format rate is_first_chunk = (r, S1)"
  shows "S1 = S \<or> writer_calls S1 = writer_calls S @ [Construct output_format rate]"
    and "writers S k \<noteq> None \<Longrightarrow> writers S1 k \<noteq> None"
    and "\<And>w. r = Inr w \<Longrightarrow> writers S1 (writer_key output_format rate) = Some w"
  using get_or_create_writer_cases [OF assms] by auto

lemma write_audio_cases:
  assumes "write_audio W S1 key w samples = (r, w2, S2)"
  shows "(samples = [] \<and> r = Inr None \<and> w2 = w \<and> S2 = S1)
       \<or> (samples \<noteq> [] \<and> (\<exists>r'. write_chunk W w samples = (r', w2) \<and> r = map_sum id Some r')
            \<and> S2 = S1\<lparr> writers := (writers S1)(key \<mapsto> w2),
                        writer_calls := writer_calls S1 @ [WriteChunk key] \<rparr>)"
  using assms
  by (cases "write_chunk W w samples"; cases "fst (write_chunk W w samples)")
     (auto simp: write_audio_def Let_def split: if_splits)

lemma convert_audio_try_failure:
  assumes "convert_audio_try W cfg S audio_chunk rate output_format speed chunk_text
             is_first_chunk is_last_chunk normalizer = (Inl cause, S')"
  shows "\<exists>calls. writer_calls S' = writer_calls S @ calls
           \<and> (calls = [] \<longrightarrow> S' = S)
           \<and> (calls \<noteq> [] \<and> calls \<noteq> [Construct output_format rate]
                \<longrightarrow> writers S' (writer_key output_format rate) \<noteq> None)
           \<and> (\<forall>k. writers S k \<noteq> None \<longrightarrow> writers S' k \<noteq> None)"
proof -
  let ?key = "writer_key output_format rate"
  let ?P = "\<lambda>S'. \<exists>calls. writer_calls S' = writer_calls S @ calls
           \<and> (calls = [] \<longrightarrow> S' = S)
           \<and> (calls \<noteq> [] \<and> calls \<noteq> [Construct output_format rate]
                \<longrightarrow> writers S' ?key \<noteq> None)
           \<and> (\<forall>k. writers S k \<noteq> None \<longrightarrow> writers S' k \<noteq> None)"
  have P0: "?P S" by simp
  obtain r S1 where g: "get_or_create_writer W S output_format rate is_first_chunk = (r, S1)"
    by (cases "get_or_create_writer W S output_format rate is_first_chunk")
  note gs = get_or_create_writer_state [OF g]
  have P1: "?P S1"
    using gs(1) gs(2) by auto
  have P2: "?P (S1\<lparr> writers := (writers S1)(?key \<mapsto> w2),
                      writer_calls := writer_calls S1 @ [WriteChunk ?key] \<rparr>)" for w2
    using gs(1) gs(2) by auto
  have P3: "?P (S2\<lparr> writers := (writers S2)(?key \<mapsto> w3),
                      writer_calls := writer_calls S2 @ [FinalizeChunk ?key] \<rparr>)"
    if "S2 = S1 \<or> S2 = S1\<lparr> writers := (writers S1)(?key \<mapsto> w2),
                      writer_calls := writer_calls S1 @ [WriteChunk ?key] \<rparr>" for S2 w2 w3
    using gs(1) gs(2) that by auto
  show ?thesis
  proof (cases "output_format \<in> SUPPORTED_FORMATS")
    case False
    with assms have "S' = S" by (simp add: convert_audio_try_def)
    with P0 show ?thesis by simp
  next
    case fmt: True
    show ?thesis
    proof (cases "normalize_audio (audio audio_chunk)")
      case (Inl e)
      with assms fmt have "S' = S" by (simp add: convert_audio_try_def)
      with P0 show ?thesis by simp
    next
      case n: (Inr normalized)
      show ?thesis
      proof (cases "trim_audio cfg \<lparr> audio = normalized,
                                word_timestamps = word_timestamps audio_chunk \<rparr>
                chunk_text speed is_last_chunk (Some (normalizer_or_default cfg normalizer))")
        case (Inl e)
        with assms fmt n have "S' = S" by (simp add: convert_audio_try_def)
        with P0 show ?thesis by simp
      next
        case t: (Inr chunk)
        show ?thesis
        proof (cases r)
          case (Inl e)
          with assms fmt n t g have "S' = S1" by (simp add: convert_audio_try_def)
          with P1 show ?thesis by simp
        next
          case r: (Inr w)
          obtain r2 w2 S2 where wa: "write_audio W S1 ?key w (audio chunk) = (r2, w2, S2)"
            by (cases "write_audio W S1 ?key w (audio chunk)")
          from write_audio_cases [OF wa]
          have s2: "S2 = S1 \<or> S2 = S1\<lparr> writers := (writers S1)(?key \<mapsto> w2),
                      writer_calls := writer_calls S1 @ [WriteChunk ?key] \<rparr>"
            by auto
          have PS2: "?P S2"
            using s2 P1 P2 [of w2] by metis
          show ?thesis
          proof (cases r2)
            case (Inl e)
            with assms fmt n t g r wa have "S' = S2" by (simp add: convert_audio_try_def)
            with PS2 show ?thesis by simp
          next
            case r2: (Inr chunk_data)
            show ?thesis
            proof (cases is_last_chunk)
              case False
              with assms fmt n t g r wa r2 have "S' = S2"
                by (simp add: convert_audio_try_def split: option.splits)
              with PS2 show ?thesis by simp
            next
              case True
              obtain rf w3 where f: "finalize_chunk W w2 = (rf, w3)"
                by (cases "finalize_chunk W w2")
              with assms fmt n t g r wa r2 True
              have "S' = S2\<lparr> writers := (writers S2)(?key \<mapsto> w3),
                      writer_calls := writer_calls S2 @ [FinalizeChunk ?key] \<rparr>"
                by (simp add: convert_audio_try_def Let_def split: sum.splits)
              with P3 [OF s2, of w3] show ?thesis by simp
            qed
          qed
        qed
      qed
    qed
  qed
qed


lemma convert_audio_try_success:
  assumes "convert_audio_try W cfg S audio_chunk rate output_format speed chunk_text
             is_first_chunk is_last_chunk normalizer = (Inr res, S')"
  shows "\<exists>w S1 samples chunk_data w2 S2.
           get_or_create_writer W S output_format rate is_first_chunk = (Inr w, S1)
         \<and> write_audio W S1 (writer_key output_format rate) w samples = (Inr chunk_data, w2, S2)
         \<and> (if is_last_chunk
             then S' = S2\<lparr> writers := (writers S2)(writer_key output_format rate := None),
                            writer_calls := writer_calls S2
                              @ [FinalizeChunk (writer_key output_format rate)] \<rparr>
             else chunk_data \<noteq> None \<and> S' = S2)"
proof -
  let ?key = "writer_key output_format rate"
  from assms have fmt: "output_format \<in> SUPPORTED_FORMATS"
    by (auto simp: convert_audio_try_def split: if_splits)
  from assms fmt obtain normalized where n: "normalize_audio (audio audio_chunk) = Inr normalized"
    by (cases "normalize_audio (audio audio_chunk)") (auto simp: convert_audio_try_def)
  from assms fmt n obtain chunk where
    t: "trim_audio cfg \<lparr> audio = normalized, word_timestamps = word_timestamps audio_chunk \<rparr>
          chunk_text speed is_last_chunk (Some (normalizer_or_default cfg normalizer)) = Inr chunk"
    by (cases "trim_audio cfg \<lparr> audio = normalized,
                 word_timestamps = word_timestamps audio_chunk \<rparr>
          chunk_text speed is_last_chunk (Some (normalizer_or_default cfg normalizer))")
       (auto simp: convert_audio_try_def)
  obtain r S1 where g0: "get_or_create_writer W S output_format rate is_first_chunk = (r, S1)"
    by (cases "get_or_create_writer W S output_format rate is_first_chunk")
  with assms fmt n t obtain w where r: "r = Inr w"
    by (cases r) (auto simp: convert_audio_try_def)
  note g = g0 [unfolded r]
  obtain r2 w2 S2 where wa0: "write_audio W S1 ?key w (audio chunk) = (r2, w2, S2)"
    by (cases "write_audio W S1 ?key w (audio chunk)")
  with assms fmt n t g obtain chunk_data where r2: "r2 = Inr chunk_data"
    by (cases r2) (auto simp: convert_audio_try_def)
  note wa = wa0 [unfolded r2]
  have "if is_last_chunk
        then S' = S2\<lparr> writers := (writers S2)(?key := None),
                       writer_calls := writer_calls S2 @ [FinalizeChunk ?key] \<rparr>
        else chunk_data \<noteq> None \<and> S' = S2"
  proof (cases is_last_chunk)
    case False
    with assms fmt n t g wa show ?thesis
      by (auto simp: convert_audio_try_def split: option.splits)
  next
    case True
    obtain rf w3 where "finalize_chunk W w2 = (rf, w3)"
      by (cases "finalize_chunk W w2")
    with assms fmt n t g wa True show ?thesis
      by (auto simp: convert_audio_try_def Let_def split: sum.splits)
  qed
  with g wa show ?thesis by blast
qed

lemma trim_single_loud:
  "trim_audio example_settings \<lparr> audio = [16383], word_timestamps = None \<rparr> [] 1 b
     (Some (normalizer_or_default example_settings None))
   = Inr \<lparr> audio = [16383], word_timestamps = None \<rparr>"
proof -
  let ?nz = "normalizer_or_default example_settings None"
  have scans: "scan_up (amplitude_threshold (- 45)) [16383 :: int16] 0 = Some 0"
    "scan_down (amplitude_threshold (- 45)) [16383 :: int16] (length [16383 :: int16]) = Some 0"
    by (rule scans_loud_head; simp add: above_default)+
  have pad: "trailing_pad (AudioNormalizer_init example_settings) example_settings [] 1 b
               = (if b then 1200 else 8640)"
    by (simp add: trailing_pad_def samples_to_pad_end_def pad_multiplier_def strip_def)
  have "find_first_last_non_silent ?nz example_settings [16383] [] 1 (- 45) b = Inr (0, 1)"
    using locator_loud [OF scans, of 1 ?nz example_settings "[]" b]
    by (simp add: pad normalizer_or_default_def)
  then show ?thesis
    by (simp add: trim_audio_def trim_start_end_def normalizer_or_default_def py_slice_def
          slice_index_def)
qed

lemma trim_speed_zero:
  "trim_audio example_settings \<lparr> audio = [16383], word_timestamps = None \<rparr> [] 0 b
     (Some (normalizer_or_default example_settings None)) = Inl ZeroDivisionError"
proof -
  have scans: "scan_up (amplitude_threshold (- 45)) [16383 :: int16] 0 = Some 0"
    "scan_down (amplitude_threshold (- 45)) [16383 :: int16] (length [16383 :: int16]) = Some 0"
    by (rule scans_loud_head; simp add: above_default)+
  then have "find_first_last_non_silent (AudioNormalizer_init example_settings) example_settings
      [16383] [] 0 (- 45) b = Inl ZeroDivisionError"
    by (simp add: find_first_last_non_silent_def)
  then show ?thesis
    by (simp add: trim_audio_def trim_start_end_def normalizer_or_default_def)
qed

lemma convert_audio_returns:
  assumes "output_format \<in> SUPPORTED_FORMATS" and "audio audio_chunk \<noteq> []" and "speed \<noteq> 0"
    and "\<And>w. \<exists>w0. new_writer W output_format rate = Inr w0"
    and "\<And>w samples. \<exists>data w'. write_chunk W w samples = (Inr data, w')"
    and "\<And>w. \<exists>data w'. finalize_chunk W w = (Inr data, w')"
    and "\<And>normalized chunk.
           normalize_audio (audio audio_chunk) = Inr normalized \<Longrightarrow>
           trim_audio cfg \<lparr> audio = normalized, word_timestamps = word_timestamps audio_chunk \<rparr>
             chunk_text speed is_last_chunk (Some (normalizer_or_default cfg normalizer))
           = Inr chunk \<Longrightarrow> is_last_chunk \<or> audio chunk \<noteq> []"
  shows "\<exists>result S'. convert_audio W cfg S audio_chunk rate output_format speed chunk_text
           is_first_chunk is_last_chunk normalizer = (Inr result, S')"
proof -
  let ?key = "writer_key output_format rate"
  obtain normalized where n: "normalize_audio (audio audio_chunk) = Inr normalized"
    using assms(2) by (simp add: normalize_audio_def)
  obtain chunk where
    t: "trim_audio cfg \<lparr> audio = normalized, word_timestamps = word_timestamps audio_chunk \<rparr>
          chunk_text speed is_last_chunk (Some (normalizer_or_default cfg normalizer)) = Inr chunk"
    using trim_audio_returns [OF assms(3)] by blast
  obtain r S1 where g0: "get_or_create_writer W S output_format rate is_first_chunk = (r, S1)"
    by (cases "get_or_create_writer W S output_format rate is_first_chunk")
  from get_or_create_writer_cases [OF g0] assms(4) obtain w where "r = Inr w"
    by (metis sum.distinct(1))
  note g = g0 [unfolded this]
  obtain r2 w2 S2 where wa0: "write_audio W S1 ?key w (audio chunk) = (r2, w2, S2)"
    by (cases "write_audio W S1 ?key w (audio chunk)")
  from write_audio_cases [OF wa0] assms(5) [of w "audio chunk"] obtain chunk_data where
    r2: "r2 = Inr chunk_data" and cd: "audio chunk \<noteq> [] \<longrightarrow> chunk_data \<noteq> None"
    by auto
  note wa = wa0 [unfolded r2]
  show ?thesis
  proof (cases is_last_chunk)
    case True
    obtain data w3 where "finalize_chunk W w2 = (Inr data, w3)"
      using assms(6) by blast
    with assms(1) n t g wa True show ?thesis
      by (simp add: convert_audio_def convert_audio_try_def Let_def)
  next
    case False
    with assms(7) [OF n t] cd obtain data where "chunk_data = Some data"
      by auto
    with assms(1) n t g wa False show ?thesis
      by (simp add: convert_audio_def convert_audio_try_def)
  qed
qed

section \<open>Normalization\<close>

text \<open>
  Claim C8. For every non-empty float buffer, \<open>normalize_audio\<close> returns a buffer of the same
  length; each output sample is the input sample scaled by 32767, clamped to
  \<open>[-32768, 32767]\<close> and truncated towards zero, and read as a signed 16-bit value it lies
  in \<open>[-32768, 32767]\<close>. The result is a function of the input alone.
\<close>

theorem normalize_scale_clamp_truncate:
  assumes "audio_data \<noteq> []"
  shows "\<exists>out. normalize_audio audio_data = Inr out \<and> length out = length audio_data \<and>
           (\<forall>i < length audio_data.
              sint (out ! i) = py_int (min (max (audio_data ! i * 32767) (- 32768)) 32767) \<and>
              - 32768 \<le> sint (out ! i) \<and> sint (out ! i) \<le> 32767)"
proof -
  let ?f = "\<lambda>x::real. astype_int16 (np_clip (x * 32767) (- 32768) 32767)"
  have eq: "normalize_audio audio_data = Inr (map ?f audio_data)"
    using assms by (simp add: normalize_audio_def)
  have sample: "sint (?f x) = py_int (min (max (x * 32767) (- 32768)) 32767) \<and>
                - 32768 \<le> sint (?f x) \<and> sint (?f x) \<le> 32767" for x
  proof -
    have b: "- 32768 \<le> np_clip (x * 32767) (- 32768) 32767"
            "np_clip (x * 32767) (- 32768) 32767 \<le> 32767"
      using np_clip_bounds [of "- 32768" 32767 "x * 32767"] by simp_all
    have s: "sint (?f x) = py_int (np_clip (x * 32767) (- 32768) 32767)"
      using b by (rule sint_astype_int16)
    have "- 32768 \<le> py_int (np_clip (x * 32767) (- 32768) 32767)"
         "py_int (np_clip (x * 32767) (- 32768) 32767) \<le> 32767"
      using py_int_bounds [of "- 32768" "np_clip (x * 32767) (- 32768) 32767" 32767] b
      by simp_all
    with s show ?thesis by (simp add: np_clip_def)
  qed
  have "\<forall>i < length audio_data.
          sint (map ?f audio_data ! i)
            = py_int (min (max (audio_data ! i * 32767) (- 32768)) 32767) \<and>
          - 32768 \<le> sint (map ?f audio_data ! i) \<and> sint (map ?f audio_data ! i) \<le> 32767"
  proof (intro allI impI)
    fix i
    assume "i < length audio_data"
    then have m: "map ?f audio_data ! i = ?f (audio_data ! i)"
      by (rule nth_map)
    show "sint (map ?f audio_data ! i)
            = py_int (min (max (audio_data ! i * 32767) (- 32768)) 32767) \<and>
          - 32768 \<le> sint (map ?f audio_data ! i) \<and> sint (map ?f audio_data ! i) \<le> 32767"
      unfolding m by (rule sample)
  qed
  moreover have "length (map ?f audio_data) = length audio_data"
    by simp
  ultimately show ?thesis
    using eq by blast
qed

theorem normalize_scale_clamp_truncate_witness:
  "[1 / 2, - 2, 2 :: real] \<noteq> [] \<and>
   (\<exists>out. normalize_audio [1 / 2, - 2, 2] = Inr out \<and> length out = 3 \<and>
      sint (out ! 0) = 16383 \<and> sint (out ! 1) = - 32768 \<and> sint (out ! 2) = 32767)"
proof -
  have ne: "[1 / 2, - 2, 2 :: real] \<noteq> []" by simp
  from normalize_scale_clamp_truncate [OF ne] obtain out where
    out: "normalize_audio [1 / 2, - 2, 2] = Inr out" "length out = 3"
      "\<forall>i < 3. sint (out ! i) = py_int (min (max ([1 / 2, - 2, 2 :: real] ! i * 32767) (- 32768)) 32767)"
    by auto
  from out(3) have "sint (out ! 0) = 16383" "sint (out ! 1) = - 32768" "sint (out ! 2) = 32767"
    by (simp_all add: py_int_def)
  with out(1,2) ne show ?thesis by blast
qed

section \<open>The silence locator\<close>

subsection \<open>The trailing pad\<close>

text \<open>
  Claim C3, as stated, fails. On a last chunk whose only loud sample is at index 0, at
  speed 2, the locator ends the range at 600: the pad added after the last loud sample is
  \<open>\<lceil>1200 / 2\<rceil> = 600\<close>, not \<open>samples_to_pad_start = 1200\<close>, and it changes with the
  speed (1200 at speed 1).
\<close>

theorem last_chunk_pad_depends_on_speed:
  "find_first_last_non_silent (AudioNormalizer_init example_settings) example_settings
      (30000 # replicate 1500 0) [] 2 (- 45) True = Inr (0, 600)
   \<and> scan_down (amplitude_threshold (- 45)) (30000 # replicate 1500 0) 1501 = Some 0
   \<and> samples_to_pad_start (AudioNormalizer_init example_settings) = 1200
   \<and> trailing_pad (AudioNormalizer_init example_settings) example_settings [] 2 True = 600
   \<and> trailing_pad (AudioNormalizer_init example_settings) example_settings [] 1 True = 1200"
proof -
  let ?buf = "30000 # replicate 1500 (0 :: int16)"
  let ?thr = "amplitude_threshold (- 45)"
  have scans: "scan_up ?thr ?buf 0 = Some 0" "scan_down ?thr ?buf (length ?buf) = Some 0"
    by (rule scans_loud_head; auto simp: above_default nth_Cons')+
  have pads: "trailing_pad (AudioNormalizer_init example_settings) example_settings [] 2 True = 600"
    "trailing_pad (AudioNormalizer_init example_settings) example_settings [] 1 True = 1200"
    by (simp_all add: trailing_pad_def samples_to_pad_end_def)
  have "find_first_last_non_silent (AudioNormalizer_init example_settings) example_settings
      ?buf [] 2 (- 45) True = Inr (0, 600)"
    using locator_loud [OF scans, of 2] pads(1) by simp
  with scans(2) pads show ?thesis by simp
qed

text \<open>
  Claim C3, amended. Whether the chunk is the last one or not, the pad added after the last
  loud sample is \<open>samples_to_pad_end\<close> divided by the speed and rounded up, where
  \<open>samples_to_pad_end\<close> is the leading pad of 1200 samples on a last chunk and otherwise
  the dynamic pad in samples times the multiplier, truncated, minus 1200, floored at 0.
  Here \<open>i\<close> and \<open>k\<close> are the first and the last index whose sample is above the threshold.
\<close>

theorem trailing_pad_divided_by_speed:
  assumes "i < length xs" and "above_threshold (amplitude_threshold db) (xs ! i)"
    and "\<forall>j < i. \<not> above_threshold (amplitude_threshold db) (xs ! j)"
    and "k < length xs" and "above_threshold (amplitude_threshold db) (xs ! k)"
    and "\<forall>j. k < j \<and> j < length xs \<longrightarrow> \<not> above_threshold (amplitude_threshold db) (xs ! j)"
    and "speed \<noteq> 0"
  shows "find_first_last_non_silent (AudioNormalizer_init c0) cfg xs chunk_text speed db is_last_chunk
           = Inr (max (int i - 1200) 0,
                  min (int k + \<lceil>real_of_int
                        (if is_last_chunk then 1200
                         else max (py_int (real_of_int (dynamic_gap_trim_padding_ms cfg * 24000)
                                            * pad_multiplier cfg chunk_text / 1000) - 1200) 0)
                        / speed\<rceil>)
                      (int (length xs)))"
proof -
  have up: "scan_up (amplitude_threshold db) xs 0 = Some i"
    and down: "scan_down (amplitude_threshold db) xs (length xs) = Some k"
    using first_last_scans [OF assms(1-6)] by simp_all
  show ?thesis
    using locator_loud [OF up down assms(7)]
    by (simp add: trailing_pad_def samples_to_pad_end_def)
qed

theorem trailing_pad_divided_by_speed_witness:
  "(2 :: real) \<noteq> 0 \<and>
   find_first_last_non_silent (AudioNormalizer_init example_settings) example_settings
     [0, 30000, 0] [] 2 (- 45) True = Inr (0, 3)"
proof -
  let ?thr = "amplitude_threshold (- 45)"
  let ?xs = "[0, 30000, 0] :: int16 list"
  have 1: "1 < length ?xs" by simp
  have 2: "above_threshold ?thr (?xs ! 1)" by (simp add: above_default)
  have 3: "\<forall>j < 1. \<not> above_threshold ?thr (?xs ! j)" by (simp add: above_default)
  have 4: "\<forall>j. 1 < j \<and> j < length ?xs \<longrightarrow> \<not> above_threshold ?thr (?xs ! j)"
    by (auto simp: above_default nth_Cons')
  have 5: "(2 :: real) \<noteq> 0" by simp
  show ?thesis
    using trailing_pad_divided_by_speed
            [OF 1 2 3 1 2 4 5, of example_settings example_settings "[]" True]
    by simp
qed

text \<open>
  Claim C5, as stated, fails. With 410 ms of dynamic pad and a comma mapped to 2, at
  speed 1 on a chunk that is not the last, the pad is 18480 samples after \<open>Hello,\<close> and
  8640 samples after \<open>Hello\<close>: the leading pad of 1200 is subtracted after the
  multiplication, so the pad is not doubled.
\<close>

theorem doubled_multiplier_pad_not_double:
  "pad_multiplier example_settings ''Hello,'' = 2
   \<and> pad_multiplier example_settings ''Hello'' = 1
   \<and> trailing_pad (AudioNormalizer_init example_settings) example_settings ''Hello,'' 1 False = 18480
   \<and> trailing_pad (AudioNormalizer_init example_settings) example_settings ''Hello'' 1 False = 8640
   \<and> trailing_pad (AudioNormalizer_init example_settings) example_settings ''Hello,'' 1 False
       \<noteq> 2 * trailing_pad (AudioNormalizer_init example_settings) example_settings ''Hello'' 1 False"
  by (simp add: trailing_pad_def samples_to_pad_end_def pad_multiplier_def strip_def is_space_def)

text \<open>
  Claim C5, amended. For two chunk texts whose multipliers are 2 and 1, on a chunk that is
  not the last and with a dynamic pad of at least 50 ms, the pad before the division by the
  speed is twice the pad for multiplier 1 plus the leading pad: what doubles is the pad
  together with the leading pad of 1200 samples.
\<close>

theorem doubled_multiplier_pad:
  assumes "pad_multiplier cfg text2 = 2" and "pad_multiplier cfg text1 = 1"
    and "50 \<le> dynamic_gap_trim_padding_ms cfg"
  shows "samples_to_pad_end (AudioNormalizer_init c0) cfg text2 False
           = 2 * samples_to_pad_end (AudioNormalizer_init c0) cfg text1 False
             + samples_to_pad_start (AudioNormalizer_init c0)"
proof -
  let ?ms = "dynamic_gap_trim_padding_ms cfg"
  have 1: "real_of_int (?ms * 24000) * 1 / 1000 = real_of_int (24 * ?ms)"
    by simp
  have 2: "real_of_int (?ms * 24000) * 2 / 1000 = real_of_int (48 * ?ms)"
    by simp
  show ?thesis
    using assms(3)
    by (simp only: samples_to_pad_end_def assms(1,2) 1 2 py_int_of_int
        init_sample_rate init_samples_to_pad_start simp_thms if_True) simp
qed

theorem doubled_multiplier_pad_witness:
  "pad_multiplier example_settings ''Hello,'' = 2 \<and>
   pad_multiplier example_settings ''Hello'' = 1 \<and>
   50 \<le> dynamic_gap_trim_padding_ms example_settings \<and>
   samples_to_pad_end (AudioNormalizer_init example_settings) example_settings ''Hello,'' False
     = 2 * samples_to_pad_end (AudioNormalizer_init example_settings) example_settings
             ''Hello'' False + 1200"
proof -
  have 1: "pad_multiplier example_settings ''Hello,'' = 2"
    by (simp add: pad_multiplier_def strip_def is_space_def)
  have 2: "pad_multiplier example_settings ''Hello'' = 1"
    by (simp add: pad_multiplier_def strip_def is_space_def)
  have 3: "50 \<le> dynamic_gap_trim_padding_ms example_settings"
    by simp
  show ?thesis
    using doubled_multiplier_pad [OF 1 2 3, of example_settings] 1 2 by simp
qed

subsection \<open>The range returned\<close>

text \<open>
  Claim C4: the code departs from it. The loops test the signed sample, not its
  magnitude. In a buffer of 1302 samples with 30000 at index 0, zeros, and -30000 at index
  1301, the last sample has a magnitude above the threshold, so the last loud index of the
  claim is 1301 and the end of its range is \<open>min (1301 + 1200) 1302 = 1302\<close>; the locator
  finds index 0 as the last loud sample and returns the end 1200.
\<close>

theorem negative_peak_not_detected:
  "find_first_last_non_silent (AudioNormalizer_init example_settings) example_settings
      (30000 # replicate 1300 0 @ [- 30000]) [] 1 (- 45) True = Inr (0, 1200)
   \<and> length (30000 # replicate 1300 (0 :: int16) @ [- 30000]) = 1302
   \<and> magnitude_above (amplitude_threshold (- 45)) ((30000 # replicate 1300 0 @ [- 30000]) ! 1301)
   \<and> min (1301 + trailing_pad (AudioNormalizer_init example_settings) example_settings [] 1 True)
          1302 = 1302"
proof -
  let ?buf = "30000 # replicate 1300 (0 :: int16) @ [- 30000]"
  let ?thr = "amplitude_threshold (- 45)"
  have nth: "?buf ! j = (if j = 0 then 30000 else if j < 1301 then 0 else - 30000)" if "j < 1302" for j
    using that by (auto simp: nth_Cons' nth_append)
  have scans: "scan_up ?thr ?buf 0 = Some 0" "scan_down ?thr ?buf (length ?buf) = Some 0"
  proof -
    have tail: "\<forall>j. 1 \<le> j \<and> j < length ?buf \<longrightarrow> \<not> above_threshold ?thr (?buf ! j)"
    proof (intro allI impI)
      fix j
      assume j: "1 \<le> j \<and> j < length ?buf"
      then have lt: "j < 1302" by simp
      have "sint (?buf ! j) \<le> 0"
        by (simp only: nth [OF lt]) (use j in simp)
      then show "\<not> above_threshold ?thr (?buf ! j)"
        unfolding above_default by linarith
    qed
    have hd: "above_threshold ?thr (?buf ! 0)"
      by (simp add: above_default)
    show "scan_up ?thr ?buf 0 = Some 0" "scan_down ?thr ?buf (length ?buf) = Some 0"
      using scans_loud_head [OF _ hd tail] by simp_all
  qed
  have pad: "trailing_pad (AudioNormalizer_init example_settings) example_settings [] 1 True = 1200"
    by (simp add: trailing_pad_def samples_to_pad_end_def)
  have res: "find_first_last_non_silent (AudioNormalizer_init example_settings) example_settings
      ?buf [] 1 (- 45) True = Inr (0, 1200)"
    using locator_loud [OF scans, of 1] pad by simp
  have "184 < amplitude_threshold (- 45)" "amplitude_threshold (- 45) < 185"
    by (rule threshold_bounds)+
  then have mag: "magnitude_above ?thr (?buf ! 1301)"
    by (simp only: nth [of 1301]) (simp add: magnitude_above_def)
  from res mag pad show ?thesis by simp
qed

text \<open>
  Claim C6, as stated, fails in two ways. With a negative speed the pad is negative: on
  the buffer of one loud sample, last chunk, speed -1, the locator returns \<open>(0, -1200)\<close>,
  an end below the start and below 0. And the range of a buffer without a sample above the
  threshold can be empty: on the empty buffer, which has no such sample, the locator
  returns \<open>(0, 0)\<close> at speed 1 (\<open>trim_audio\<close> passes the empty buffer when
  \<^verbatim>\<open>samples_to_trim\<close> is 0, see \<open>trim_zero\<close>).
\<close>

theorem locator_range_failures:
  "find_first_last_non_silent (AudioNormalizer_init example_settings) example_settings
      [30000] [] (- 1) (- 45) True = Inr (0, - 1200)
   \<and> find_first_last_non_silent (AudioNormalizer_init example_settings) example_settings
      [] [] 1 (- 45) False = Inr (0, 0)"
proof -
  let ?thr = "amplitude_threshold (- 45)"
  have scans: "scan_up ?thr [30000] 0 = Some 0" "scan_down ?thr [30000] (length [30000 :: int16]) = Some 0"
    by (rule scans_loud_head; simp add: above_default)+
  have "find_first_last_non_silent (AudioNormalizer_init example_settings) example_settings
      [30000] [] (- 1) (- 45) True = Inr (0, - 1200)"
    using locator_loud [OF scans, of "- 1"]
    by (simp add: trailing_pad_def samples_to_pad_end_def)
  moreover have "find_first_last_non_silent (AudioNormalizer_init example_settings)
      example_settings [] [] 1 (- 45) False = Inr (0, 0)"
    by (simp add: locator_silent scan_up_None_iff)
  ultimately show ?thesis by simp
qed

text \<open>
  Claim C6, amended. For every buffer and every positive speed the locator returns a range
  \<open>(s, e)\<close> with \<open>0 \<le> s \<le> e \<le> len(buffer)\<close>; when no sample is above the threshold the
  range is \<open>(0, len(buffer))\<close>, the whole buffer, and it is not empty when the buffer is
  not empty.
\<close>

theorem locator_range_invariant:
  assumes "0 < speed"
  shows "\<exists>s e. find_first_last_non_silent (AudioNormalizer_init c0) cfg xs chunk_text speed db
                  is_last_chunk = Inr (s, e)
               \<and> 0 \<le> s \<and> s \<le> e \<and> e \<le> int (length xs)
               \<and> ((\<forall>j < length xs. \<not> above_threshold (amplitude_threshold db) (xs ! j))
                    \<longrightarrow> s = 0 \<and> e = int (length xs) \<and> (xs \<noteq> [] \<longrightarrow> s < e))"
proof (cases rule: locator_cases [of db xs])
  case silent
  then have "find_first_last_non_silent (AudioNormalizer_init c0) cfg xs chunk_text speed db
               is_last_chunk = Inr (0, int (length xs))"
    by (simp add: find_first_last_non_silent_def)
  then show ?thesis by simp
next
  case (loud i k)
  let ?p = "trailing_pad (AudioNormalizer_init c0) cfg chunk_text speed is_last_chunk"
  have ik: "i \<le> k" "k < length xs"
    using scan_up_le_scan_down [OF loud] by simp_all
  have p: "0 \<le> ?p"
    using assms by (rule trailing_pad_nonneg)
  have not_silent: "\<not> (\<forall>j < length xs. \<not> above_threshold (amplitude_threshold db) (xs ! j))"
    using loud(1) by (auto simp: scan_up_Some_iff)
  have eq: "find_first_last_non_silent (AudioNormalizer_init c0) cfg xs chunk_text speed db
              is_last_chunk
            = Inr (max (int i - 1200) 0, min (int k + ?p) (int (length xs)))"
    using locator_loud [OF loud, of speed "AudioNormalizer_init c0"] assms by simp
  have "0 \<le> max (int i - 1200) 0"
    and "max (int i - 1200) 0 \<le> min (int k + ?p) (int (length xs))"
    and "min (int k + ?p) (int (length xs)) \<le> int (length xs)"
    using ik p by simp_all
  with eq not_silent show ?thesis by blast
qed

theorem locator_range_invariant_witness:
  "(0 :: real) < 1 \<and> [0, 0 :: int16] \<noteq> [] \<and>
   \<not> above_threshold (amplitude_threshold (- 45)) (0 :: int16) \<and>
   find_first_last_non_silent (AudioNormalizer_init example_settings) example_settings
     [0, 0] [] 1 (- 45) False = Inr (0, 2) \<and>
   (\<exists>s e. find_first_last_non_silent (AudioNormalizer_init example_settings) example_settings
             [0, 30000, 0] [] 1 (- 45) False = Inr (s, e) \<and> 0 \<le> s \<and> s \<le> e \<and> e \<le> 3)"
proof -
  let ?thr = "amplitude_threshold (- 45)"
  have pos: "(0 :: real) < 1" by simp
  have silent: "\<forall>j < length [0, 0 :: int16]. \<not> above_threshold ?thr ([0, 0 :: int16] ! j)"
    by (auto simp: above_default nth_Cons')
  from locator_range_invariant [OF pos, of example_settings example_settings "[0, 0]" "[]" "- 45" False]
  obtain s e where
    "find_first_last_non_silent (AudioNormalizer_init example_settings) example_settings
       [0, 0] [] 1 (- 45) False = Inr (s, e)"
    and "(\<forall>j < length [0, 0 :: int16]. \<not> above_threshold ?thr ([0, 0] ! j))
          \<longrightarrow> s = 0 \<and> e = int (length [0, 0 :: int16]) \<and> ([0, 0 :: int16] \<noteq> [] \<longrightarrow> s < e)"
    by blast
  with silent have a: "find_first_last_non_silent (AudioNormalizer_init example_settings)
       example_settings [0, 0] [] 1 (- 45) False = Inr (0, 2)"
    by simp
  from locator_range_invariant
         [OF pos, of example_settings example_settings "[0, 30000, 0]" "[]" "- 45" False]
  have b: "\<exists>s e. find_first_last_non_silent (AudioNormalizer_init example_settings)
             example_settings [0, 30000, 0] [] 1 (- 45) False = Inr (s, e)
           \<and> 0 \<le> s \<and> s \<le> e \<and> e \<le> 3"
    by auto
  have quiet: "\<not> above_threshold ?thr (0 :: int16)"
    by (simp add: above_default)
  from pos quiet a b show ?thesis by simp
qed

section \<open>Trimming\<close>

text \<open>
  Claim C7. Whenever \<open>trim_audio\<close> returns, every word timestamp of the chunk has its
  \<open>start_time\<close> and \<open>end_time\<close> lowered by \<open>start_index / 24000\<close>, where \<open>start_index\<close>
  is the start returned by the silence locator on the head- and tail-trimmed buffer. This
  holds on every path (also when the start is 0 or the buffer is silent), the word is
  unchanged, and nothing is clamped: the witness has timestamps that become negative.
\<close>

theorem trim_audio_rebases_timestamps:
  assumes "trim_audio cfg audio_chunk chunk_text speed is_last_chunk normalizer = Inr chunk'"
  shows "\<exists>start_index end_index.
           find_first_last_non_silent (normalizer_or_default cfg normalizer) cfg
             (trim_start_end (normalizer_or_default cfg normalizer) (audio audio_chunk))
             chunk_text speed (- 45) is_last_chunk = Inr (start_index, end_index)
         \<and> (case word_timestamps audio_chunk of
              None \<Rightarrow> word_timestamps chunk' = None
            | Some ts \<Rightarrow>
                (\<exists>ts'. word_timestamps chunk' = Some ts' \<and> length ts' = length ts \<and>
                   (\<forall>n < length ts.
                      start_time (ts' ! n) = start_time (ts ! n) - real_of_int start_index / 24000 \<and>
                      end_time (ts' ! n) = end_time (ts ! n) - real_of_int start_index / 24000 \<and>
                      word (ts' ! n) = word (ts ! n))))"
proof -
  let ?nz = "normalizer_or_default cfg normalizer"
  let ?loc = "find_first_last_non_silent ?nz cfg (trim_start_end ?nz (audio audio_chunk))
                chunk_text speed (- 45) is_last_chunk"
  from assms obtain s e where loc: "?loc = Inr (s, e)"
    by (auto simp: trim_audio_def Let_def split: sum.splits)
  with assms have ts': "word_timestamps chunk' = map_option (map (rebase s)) (word_timestamps audio_chunk)"
    by (auto simp: trim_audio_def Let_def)
  have "case word_timestamps audio_chunk of
              None \<Rightarrow> word_timestamps chunk' = None
            | Some ts \<Rightarrow>
                (\<exists>ts'. word_timestamps chunk' = Some ts' \<and> length ts' = length ts \<and>
                   (\<forall>n < length ts.
                      start_time (ts' ! n) = start_time (ts ! n) - real_of_int s / 24000 \<and>
                      end_time (ts' ! n) = end_time (ts ! n) - real_of_int s / 24000 \<and>
                      word (ts' ! n) = word (ts ! n)))"
    using ts' by (simp add: rebase_def split: option.split)
  with loc show ?thesis by blast
qed

theorem trim_audio_rebases_timestamps_witness:
  "\<exists>chunk' ts'.
     trim_audio example_settings
       \<lparr> audio = replicate 2400 0 @ [30000] @ replicate 100 0,
         word_timestamps = Some [\<lparr> word = ''hi'', start_time = 1 / 100, end_time = 3 / 100 \<rparr>] \<rparr>
       [] 1 False None = Inr chunk'
     \<and> word_timestamps chunk' = Some ts' \<and> length ts' = 1
     \<and> start_time (ts' ! 0) = - 39 / 1000 \<and> end_time (ts' ! 0) = - 19 / 1000"
proof -
  let ?chunk = "\<lparr> audio = replicate 2400 0 @ [30000] @ replicate 100 (0 :: int16),
         word_timestamps = Some [\<lparr> word = ''hi'', start_time = 1 / 100, end_time = 3 / 100 \<rparr>] \<rparr>"
  let ?nz = "normalizer_or_default example_settings None"
  let ?thr = "amplitude_threshold (- 45)"
  have trimmed: "trim_start_end ?nz (audio ?chunk) = replicate 2376 0 @ 30000 # replicate 76 0"
    by (simp add: trim_start_end_def normalizer_or_default_def py_slice_def slice_index_def)
  have scans: "scan_up ?thr (replicate 2376 0 @ 30000 # replicate 76 0) 0 = Some 2376"
    "scan_down ?thr (replicate 2376 0 @ 30000 # replicate 76 0)
       (length (replicate 2376 (0 :: int16) @ 30000 # replicate 76 0)) = Some 2376"
    by (rule scans_single_peak; simp add: above_default)+
  have "\<exists>e. find_first_last_non_silent ?nz example_settings
          (trim_start_end ?nz (audio ?chunk)) [] 1 (- 45) False = Inr (1176, e)"
    unfolding trimmed
    using locator_loud [OF scans, of 1 ?nz example_settings "[]" False]
    by (simp add: normalizer_or_default_def)
  then obtain e0 where loc: "find_first_last_non_silent ?nz example_settings
          (trim_start_end ?nz (audio ?chunk)) [] 1 (- 45) False = Inr (1176, e0)" ..
  obtain chunk' where ret: "trim_audio example_settings ?chunk [] 1 False None = Inr chunk'"
    using trim_audio_returns [of 1 example_settings ?chunk "[]" False None] by auto
  from trim_audio_rebases_timestamps [OF ret] loc
  obtain ts' where "word_timestamps chunk' = Some ts'" "length ts' = 1"
    "start_time (ts' ! 0) = 1 / 100 - real_of_int 1176 / 24000"
    "end_time (ts' ! 0) = 3 / 100 - real_of_int 1176 / 24000"
    by auto
  with ret show ?thesis by (intro exI [of _ chunk'] exI [of _ ts']) simp
qed

section \<open>The conversion service\<close>

subsection \<open>Unsupported formats\<close>

text \<open>
  Claim C9, as stated: a call with a format outside the supported set fails with the
  unsupported-format error itself. It does not: the check of line 143 stands inside the
  \<^verbatim>\<open>try\<close>, so the handler of line 174 catches its \<^verbatim>\<open>ValueError\<close> and raises the wrapped
  conversion-failure error in its place. For \<^verbatim>\<open>"midi"\<close> the caller sees the message
  \<^verbatim>\<open>Failed to convert audio stream to midi: Format midi not supported\<close>.
\<close>

theorem unsupported_format_is_wrapped:
  "fst (convert_audio counting_writer example_settings no_writers
          \<lparr> audio = [1 / 2], word_timestamps = None \<rparr> 24000 ''midi'' 1 [] True False None)
     = Inl (ValueError ''Failed to convert audio stream to midi: Format midi not supported'')
   \<and> fst (convert_audio counting_writer example_settings no_writers
          \<lparr> audio = [1 / 2], word_timestamps = None \<rparr> 24000 ''midi'' 1 [] True False None)
     \<noteq> Inl (ValueError ''Format midi not supported'')"
  by (simp add: convert_audio_def convert_audio_try_def SUPPORTED_FORMATS_def
        conversion_failed_def)

text \<open>
  Claim C9, amended. For every format outside the supported set, and every chunk, state,
  speed and flags, \<open>convert_audio\<close> fails with the conversion-failure error that wraps the
  unsupported-format message, and the state of the service is the one before the call: no
  entry is created and no encoder-writer is called. Nothing is normalized or trimmed
  before: the witness has an empty buffer and the speed 0, which would raise otherwise.
\<close>

theorem unsupported_format_rejected:
  assumes "output_format \<notin> SUPPORTED_FORMATS"
  shows "convert_audio W cfg S audio_chunk rate output_format speed chunk_text
           is_first_chunk is_last_chunk normalizer
         = (Inl (conversion_failed output_format
                   (ValueError (''Format '' @ output_format @ '' not supported''))), S)"
  using assms by (simp add: convert_audio_def convert_audio_try_def)

theorem unsupported_format_rejected_witness:
  "''midi'' \<notin> SUPPORTED_FORMATS
   \<and> convert_audio failing_writer example_settings no_writers
       \<lparr> audio = [], word_timestamps = None \<rparr> 24000 ''midi'' 0 [] True True None
     = (Inl (ValueError ''Failed to convert audio stream to midi: Format midi not supported''),
        no_writers)"
  using unsupported_format_rejected [of "''midi''" failing_writer example_settings no_writers
      "\<lparr> audio = [], word_timestamps = None \<rparr>" 24000 0 "[]" True True None]
  by (simp add: SUPPORTED_FORMATS_def conversion_failed_def)

subsection \<open>An empty buffer on a chunk that is not the last\<close>

text \<open>
  Claim C10. When the chunk is not the last and the buffer left by normalization and
  trimming is empty, \<open>convert_audio\<close> returns no pair: it fails with the wrapped
  conversion-failure error (the \<^verbatim>\<open>ValueError\<close> of line 176, whose message names the format
  and the message of the cause), and no write is made (the encoder-writer is at most
  constructed). When the format is supported and the writer is found or constructed, the
  cause is the unbound variable \<^verbatim>\<open>chunk_data\<close> of line 172.
\<close>

theorem empty_trimmed_chunk_raises:
  assumes "\<not> is_last_chunk"
    and "normalize_audio (audio audio_chunk) = Inr normalized"
    and "trim_audio cfg \<lparr> audio = normalized, word_timestamps = word_timestamps audio_chunk \<rparr>
           chunk_text speed is_last_chunk (Some (normalizer_or_default cfg normalizer))
         = Inr trimmed"
    and "audio trimmed = []"
  shows "\<exists>cause S'.
           convert_audio W cfg S audio_chunk rate output_format speed chunk_text
             is_first_chunk is_last_chunk normalizer
           = (Inl (ValueError (''Failed to convert audio stream to '' @ output_format
                               @ '': '' @ str_exn cause)), S')
         \<and> (writer_calls S' = writer_calls S
              \<or> writer_calls S' = writer_calls S @ [Construct output_format rate])
         \<and> (\<forall>w S1. output_format \<in> SUPPORTED_FORMATS
               \<and> get_or_create_writer W S output_format rate is_first_chunk = (Inr w, S1)
               \<longrightarrow> cause = UnboundLocalError ''chunk_data'' \<and> S' = S1)"
proof -
  let ?call = "convert_audio W cfg S audio_chunk rate output_format speed chunk_text
                 is_first_chunk is_last_chunk normalizer"
  let ?wrapped = "\<lambda>cause. ValueError (''Failed to convert audio stream to '' @ output_format
                               @ '': '' @ str_exn cause)"
  let ?calls = "\<lambda>S'. writer_calls S' = writer_calls S
                  \<or> writer_calls S' = writer_calls S @ [Construct output_format rate]"
  let ?unbound = "\<lambda>cause S'. \<forall>w S1. output_format \<in> SUPPORTED_FORMATS
               \<and> get_or_create_writer W S output_format rate is_first_chunk = (Inr w, S1)
               \<longrightarrow> cause = UnboundLocalError ''chunk_data'' \<and> S' = S1"
  have "\<exists>cause S'. ?call = (Inl (?wrapped cause), S') \<and> ?calls S' \<and> ?unbound cause S'"
  proof (cases "output_format \<in> SUPPORTED_FORMATS")
    case False
    then have "?call = (Inl (?wrapped (ValueError (''Format '' @ output_format
                                                    @ '' not supported''))), S)"
      by (simp add: convert_audio_def convert_audio_try_def conversion_failed_def)
    moreover have "?calls S"
      by simp
    moreover have "?unbound (ValueError (''Format '' @ output_format @ '' not supported'')) S"
      using False by blast
    ultimately show ?thesis by blast
  next
    case True
    obtain r S1 where g: "get_or_create_writer W S output_format rate is_first_chunk = (r, S1)"
      by (cases "get_or_create_writer W S output_format rate is_first_chunk")
    have calls: "?calls S1"
      using get_or_create_writer_cases [OF g] by auto
    show ?thesis
    proof (cases r)
      case (Inl e)
      with True assms g have "?call = (Inl (?wrapped e), S1)"
        by (simp add: convert_audio_def convert_audio_try_def conversion_failed_def)
      moreover have "?unbound e S1"
        using g Inl by simp
      ultimately show ?thesis using calls by blast
    next
      case (Inr w)
      with True assms g have "?call = (Inl (conversion_failed output_format
                                              (UnboundLocalError ''chunk_data'')), S1)"
        by (simp add: convert_audio_def convert_audio_try_def write_audio_def)
      then have "?call = (Inl (?wrapped (UnboundLocalError ''chunk_data'')), S1)"
        by (simp only: conversion_failed_def)
      moreover have "?unbound (UnboundLocalError ''chunk_data'') S1"
        using g Inr by simp
      ultimately show ?thesis using calls by blast
    qed
  qed
  then show ?thesis .
qed

theorem empty_trimmed_chunk_raises_witness:
  "\<not> False
   \<and> normalize_audio (audio \<lparr> audio = [1 / 2], word_timestamps = None \<rparr>) = Inr [16383]
   \<and> trim_audio zero_trim_settings \<lparr> audio = [16383], word_timestamps = None \<rparr> [] 1 False
           (Some (normalizer_or_default zero_trim_settings None))
         = Inr \<lparr> audio = [], word_timestamps = None \<rparr>
   \<and> ''wav'' \<in> SUPPORTED_FORMATS
   \<and> get_or_create_writer counting_writer no_writers ''wav'' 24000 True
       = (Inr 0, \<lparr> writers = [''wav_24000'' \<mapsto> 0], writer_calls = [Construct ''wav'' 24000] \<rparr>)
   \<and> convert_audio counting_writer zero_trim_settings no_writers
         \<lparr> audio = [1 / 2], word_timestamps = None \<rparr> 24000 ''wav'' 1 [] True False None
       = (Inl (ValueError (''Failed to convert audio stream to wav: cannot access local variable ''
                 @ [CHR 0x27] @ ''chunk_data'' @ [CHR 0x27]
                 @ '' where it is not associated with a value'')),
          \<lparr> writers = [''wav_24000'' \<mapsto> 0], writer_calls = [Construct ''wav'' 24000] \<rparr>)"
proof -
  let ?chunk = "\<lparr> audio = [1 / 2], word_timestamps = None \<rparr> :: real audio_chunk"
  let ?S1 = "\<lparr> writers = [''wav_24000'' \<mapsto> 0 :: nat], writer_calls = [Construct ''wav'' 24000] \<rparr>"
  have n: "normalize_audio (audio ?chunk) = Inr [16383]"
    by (simp add: normalize_half)
  have t: "trim_audio zero_trim_settings
             \<lparr> audio = [16383], word_timestamps = word_timestamps ?chunk \<rparr> [] 1 False
             (Some (normalizer_or_default zero_trim_settings None))
           = Inr \<lparr> audio = [], word_timestamps = None \<rparr>"
    by (simp add: trim_zero)
  have f: "''wav'' \<in> SUPPORTED_FORMATS"
    by (simp add: SUPPORTED_FORMATS_def)
  have g: "get_or_create_writer counting_writer no_writers ''wav'' 24000 True = (Inr 0, ?S1)"
    by (simp add: get_or_create_writer_def writer_key_wav)
  from empty_trimmed_chunk_raises [of False ?chunk "[16383]" zero_trim_settings "[]" 1 None
      "\<lparr> audio = [], word_timestamps = None \<rparr>" counting_writer no_writers 24000 "''wav''" True,
      OF _ n t]
  obtain cause S' where
    "convert_audio counting_writer zero_trim_settings no_writers ?chunk 24000 ''wav'' 1 []
       True False None
     = (Inl (ValueError (''Failed to convert audio stream to '' @ ''wav'' @ '': ''
                         @ str_exn cause)), S')"
    "\<forall>w S1. ''wav'' \<in> SUPPORTED_FORMATS
        \<and> get_or_create_writer counting_writer no_writers ''wav'' 24000 True = (Inr w, S1)
        \<longrightarrow> cause = UnboundLocalError ''chunk_data'' \<and> S' = S1"
    by auto
  with f g have "convert_audio counting_writer zero_trim_settings no_writers ?chunk 24000 ''wav'' 1 []
       True False None
     = (Inl (ValueError (''Failed to convert audio stream to '' @ ''wav'' @ '': ''
                         @ str_exn (UnboundLocalError ''chunk_data''))), ?S1)"
    by blast
  with n t f g show ?thesis by simp
qed

subsection \<open>Failures inside the conversion\<close>

text \<open>
  Claim C1, as stated: after a failure in normalization, trimming, the write or the
  finalize, the entry of the key is absent from \<^verbatim>\<open>_writers\<close>. It is not: the handler of
  lines 174 to 178 logs and raises, and deletes nothing; the only \<^verbatim>\<open>del\<close> is at line 169,
  after a finalize that returned. On a first chunk whose write raises, the writer
  constructed at line 158 is still stored under \<^verbatim>\<open>wav_24000\<close> after the call.
\<close>

theorem write_failure_leaves_writer:
  "fst (convert_audio failing_writer example_settings no_writers
          \<lparr> audio = [1 / 2], word_timestamps = None \<rparr> 24000 ''wav'' 1 [] True False None)
     = Inl (ValueError ''Failed to convert audio stream to wav: disk full'')
   \<and> writers (snd (convert_audio failing_writer example_settings no_writers
          \<lparr> audio = [1 / 2], word_timestamps = None \<rparr> 24000 ''wav'' 1 [] True False None))
       (writer_key ''wav'' 24000) = Some 0"
  by (simp add: convert_audio_def convert_audio_try_def SUPPORTED_FORMATS_def normalize_half
        trim_single_loud get_or_create_writer_def write_audio_def writer_key_wav
        conversion_failed_def)

text \<open>
  Claim C1, amended. For a supported format, a call in which normalization, trimming, the
  write or the finalize raises fails with the one \<^verbatim>\<open>ValueError\<close> whose message names the
  format and the message of the exception raised. The writer entry is not removed: after a
  failure of normalization or trimming the state is the one before the call; after a
  failure of the write or of the finalize the key holds the writer that raised. No failing
  call, whatever its cause, removes an entry that was there before.
\<close>

theorem conversion_failure_keeps_writer:
  assumes "output_format \<in> SUPPORTED_FORMATS"
  shows
    "(\<forall>e. normalize_audio (audio audio_chunk) = Inl e \<longrightarrow>
        convert_audio W cfg S audio_chunk rate output_format speed chunk_text
          is_first_chunk is_last_chunk normalizer
        = (Inl (ValueError (''Failed to convert audio stream to '' @ output_format @ '': ''
                            @ str_exn e)), S))
   \<and> (\<forall>normalized e.
        normalize_audio (audio audio_chunk) = Inr normalized
        \<and> trim_audio cfg \<lparr> audio = normalized, word_timestamps = word_timestamps audio_chunk \<rparr>
            chunk_text speed is_last_chunk (Some (normalizer_or_default cfg normalizer)) = Inl e
        \<longrightarrow>
        convert_audio W cfg S audio_chunk rate output_format speed chunk_text
          is_first_chunk is_last_chunk normalizer
        = (Inl (ValueError (''Failed to convert audio stream to '' @ output_format @ '': ''
                            @ str_exn e)), S))
   \<and> (\<forall>normalized chunk w S1 e w'.
        normalize_audio (audio audio_chunk) = Inr normalized
        \<and> trim_audio cfg \<lparr> audio = normalized, word_timestamps = word_timestamps audio_chunk \<rparr>
            chunk_text speed is_last_chunk (Some (normalizer_or_default cfg normalizer)) = Inr chunk
        \<and> get_or_create_writer W S output_format rate is_first_chunk = (Inr w, S1)
        \<and> audio chunk \<noteq> []
        \<and> write_chunk W w (audio chunk) = (Inl e, w')
        \<longrightarrow>
        convert_audio W cfg S audio_chunk rate output_format speed chunk_text
          is_first_chunk is_last_chunk normalizer
        = (Inl (ValueError (''Failed to convert audio stream to '' @ output_format @ '': ''
                            @ str_exn e)),
           S1\<lparr> writers := (writers S1)(writer_key output_format rate \<mapsto> w'),
               writer_calls := writer_calls S1 @ [WriteChunk (writer_key output_format rate)] \<rparr>))
   \<and> (\<forall>normalized chunk w S1 chunk_data w2 S2 e w3.
        is_last_chunk
        \<and> normalize_audio (audio audio_chunk) = Inr normalized
        \<and> trim_audio cfg \<lparr> audio = normalized, word_timestamps = word_timestamps audio_chunk \<rparr>
            chunk_text speed is_last_chunk (Some (normalizer_or_default cfg normalizer)) = Inr chunk
        \<and> get_or_create_writer W S output_format rate is_first_chunk = (Inr w, S1)
        \<and> write_audio W S1 (writer_key output_format rate) w (audio chunk)
            = (Inr chunk_data, w2, S2)
        \<and> finalize_chunk W w2 = (Inl e, w3)
        \<longrightarrow>
        convert_audio W cfg S audio_chunk rate output_format speed chunk_text
          is_first_chunk is_last_chunk normalizer
        = (Inl (ValueError (''Failed to convert audio stream to '' @ output_format @ '': ''
                            @ str_exn e)),
           S2\<lparr> writers := (writers S2)(writer_key output_format rate \<mapsto> w3),
               writer_calls := writer_calls S2
                 @ [FinalizeChunk (writer_key output_format rate)] \<rparr>))
   \<and> (\<forall>err S'.
        convert_audio W cfg S audio_chunk rate output_format speed chunk_text
          is_first_chunk is_last_chunk normalizer = (Inl err, S')
        \<longrightarrow> (\<forall>k. writers S k \<noteq> None \<longrightarrow> writers S' k \<noteq> None))"
proof (intro conjI allI impI)
  fix e
  assume "normalize_audio (audio audio_chunk) = Inl e"
  with assms show "convert_audio W cfg S audio_chunk rate output_format speed chunk_text
          is_first_chunk is_last_chunk normalizer
        = (Inl (ValueError (''Failed to convert audio stream to '' @ output_format @ '': ''
                            @ str_exn e)), S)"
    by (simp add: convert_audio_def convert_audio_try_def conversion_failed_def)
next
  fix normalized e
  assume "normalize_audio (audio audio_chunk) = Inr normalized
        \<and> trim_audio cfg \<lparr> audio = normalized, word_timestamps = word_timestamps audio_chunk \<rparr>
            chunk_text speed is_last_chunk (Some (normalizer_or_default cfg normalizer)) = Inl e"
  with assms show "convert_audio W cfg S audio_chunk rate output_format speed chunk_text
          is_first_chunk is_last_chunk normalizer
        = (Inl (ValueError (''Failed to convert audio stream to '' @ output_format @ '': ''
                            @ str_exn e)), S)"
    by (simp add: convert_audio_def convert_audio_try_def conversion_failed_def)
next
  fix normalized chunk w S1 e w'
  assume "normalize_audio (audio audio_chunk) = Inr normalized
        \<and> trim_audio cfg \<lparr> audio = normalized, word_timestamps = word_timestamps audio_chunk \<rparr>
            chunk_text speed is_last_chunk (Some (normalizer_or_default cfg normalizer)) = Inr chunk
        \<and> get_or_create_writer W S output_format rate is_first_chunk = (Inr w, S1)
        \<and> audio chunk \<noteq> []
        \<and> write_chunk W w (audio chunk) = (Inl e, w')"
  with assms show "convert_audio W cfg S audio_chunk rate output_format speed chunk_text
          is_first_chunk is_last_chunk normalizer
        = (Inl (ValueError (''Failed to convert audio stream to '' @ output_format @ '': ''
                            @ str_exn e)),
           S1\<lparr> writers := (writers S1)(writer_key output_format rate \<mapsto> w'),
               writer_calls := writer_calls S1 @ [WriteChunk (writer_key output_format rate)] \<rparr>)"
    by (simp add: convert_audio_def convert_audio_try_def conversion_failed_def write_audio_def)
next
  fix normalized chunk w S1 chunk_data w2 S2 e w3
  assume "is_last_chunk
        \<and> normalize_audio (audio audio_chunk) = Inr normalized
        \<and> trim_audio cfg \<lparr> audio = normalized, word_timestamps = word_timestamps audio_chunk \<rparr>
            chunk_text speed is_last_chunk (Some (normalizer_or_default cfg normalizer)) = Inr chunk
        \<and> get_or_create_writer W S output_format rate is_first_chunk = (Inr w, S1)
        \<and> write_audio W S1 (writer_key output_format rate) w (audio chunk)
            = (Inr chunk_data, w2, S2)
        \<and> finalize_chunk W w2 = (Inl e, w3)"
  with assms show "convert_audio W cfg S audio_chunk rate output_format speed chunk_text
          is_first_chunk is_last_chunk normalizer
        = (Inl (ValueError (''Failed to convert audio stream to '' @ output_format @ '': ''
                            @ str_exn e)),
           S2\<lparr> writers := (writers S2)(writer_key output_format rate \<mapsto> w3),
               writer_calls := writer_calls S2
                 @ [FinalizeChunk (writer_key output_format rate)] \<rparr>)"
    by (auto simp: convert_audio_def convert_audio_try_def conversion_failed_def Let_def)
next
  fix err S' k
  assume "convert_audio W cfg S audio_chunk rate output_format speed chunk_text
          is_first_chunk is_last_chunk normalizer = (Inl err, S')"
  then obtain cause where
    "convert_audio_try W cfg S audio_chunk rate output_format speed chunk_text
             is_first_chunk is_last_chunk normalizer = (Inl cause, S')"
    unfolding convert_audio_Inl by blast
  from convert_audio_try_failure [OF this]
  have "\<forall>k. writers S k \<noteq> None \<longrightarrow> writers S' k \<noteq> None"
    by blast
  moreover assume "writers S k \<noteq> None"
  ultimately show "writers S' k \<noteq> None" by blast
qed

theorem conversion_failure_keeps_writer_witness:
  "''wav'' \<in> SUPPORTED_FORMATS
   \<and> normalize_audio (audio \<lparr> audio = [], word_timestamps = None \<rparr>)
       = Inl (ValueError ''Empty audio data'')
   \<and> convert_audio failing_writer example_settings stale_writer
       \<lparr> audio = [], word_timestamps = None \<rparr> 24000 ''wav'' 1 [] False False None
     = (Inl (ValueError ''Failed to convert audio stream to wav: Empty audio data''), stale_writer)
   \<and> trim_audio example_settings \<lparr> audio = [16383], word_timestamps = None \<rparr> [] 0 False
       (Some (normalizer_or_default example_settings None)) = Inl ZeroDivisionError
   \<and> convert_audio failing_writer example_settings stale_writer
       \<lparr> audio = [1 / 2], word_timestamps = None \<rparr> 24000 ''wav'' 0 [] False False None
     = (Inl (ValueError ''Failed to convert audio stream to wav: float division by zero''),
        stale_writer)
   \<and> write_chunk failing_writer 0 [16383] = (Inl (WriterError ''disk full''), 0)
   \<and> convert_audio failing_writer example_settings no_writers
       \<lparr> audio = [1 / 2], word_timestamps = None \<rparr> 24000 ''wav'' 1 [] True False None
     = (Inl (ValueError ''Failed to convert audio stream to wav: disk full''),
        \<lparr> writers = [''wav_24000'' \<mapsto> 0],
          writer_calls = [Construct ''wav'' 24000, WriteChunk ''wav_24000''] \<rparr>)
   \<and> finalize_chunk failing_finalizer 1 = (Inl (WriterError ''encoder closed''), 1)
   \<and> convert_audio failing_finalizer example_settings no_writers
       \<lparr> audio = [1 / 2], word_timestamps = None \<rparr> 24000 ''wav'' 1 [] True True None
     = (Inl (ValueError ''Failed to convert audio stream to wav: encoder closed''),
        \<lparr> writers = [''wav_24000'' \<mapsto> 1],
          writer_calls = [Construct ''wav'' 24000, WriteChunk ''wav_24000'',
                          FinalizeChunk ''wav_24000''] \<rparr>)
   \<and> writers stale_writer ''wav_24000'' \<noteq> None"
proof -
  let ?empty = "\<lparr> audio = [], word_timestamps = None \<rparr> :: real audio_chunk"
  let ?half = "\<lparr> audio = [1 / 2], word_timestamps = None \<rparr> :: real audio_chunk"
  let ?loud = "\<lparr> audio = [16383], word_timestamps = None \<rparr> :: int16 audio_chunk"
  let ?nz = "Some (normalizer_or_default example_settings None)"
  let ?S1 = "\<lparr> writers = [''wav_24000'' \<mapsto> 0 :: nat],
               writer_calls = [Construct ''wav'' 24000] \<rparr>"
  let ?S2 = "\<lparr> writers = [''wav_24000'' \<mapsto> 1 :: nat],
               writer_calls = [Construct ''wav'' 24000, WriteChunk ''wav_24000''] \<rparr>"
  have fmt: "''wav'' \<in> SUPPORTED_FORMATS"
    by (simp add: SUPPORTED_FORMATS_def)
  note failure = conversion_failure_keeps_writer [OF fmt]
  have n0: "normalize_audio (audio ?empty) = Inl (ValueError ''Empty audio data'')"
    by (simp add: normalize_audio_def)
  have n: "normalize_audio (audio ?half) = Inr [16383]"
    by (simp add: normalize_half)
  have t0: "trim_audio example_settings
              \<lparr> audio = [16383], word_timestamps = word_timestamps ?half \<rparr> [] 0 False ?nz
            = Inl ZeroDivisionError"
    by (simp add: trim_speed_zero)
  have t: "trim_audio example_settings
             \<lparr> audio = [16383], word_timestamps = word_timestamps ?half \<rparr> [] 1 b ?nz
           = Inr ?loud" for b
    by (simp add: trim_single_loud)
  have g: "get_or_create_writer W no_writers ''wav'' 24000 True = (Inr 0, ?S1)"
    if "new_writer W = (\<lambda>_ _. Inr 0)" for W :: "nat writer_ops"
    using that by (simp add: get_or_create_writer_def writer_key_wav)
  have w0: "write_chunk failing_writer 0 (audio ?loud) = (Inl (WriterError ''disk full''), 0)"
    by simp
  have w: "write_audio failing_finalizer ?S1 (writer_key ''wav'' 24000) 0 (audio ?loud)
           = (Inr (Some [1]), 1, ?S2)"
    by (simp add: write_audio_def writer_key_wav)
  have f0: "finalize_chunk failing_finalizer 1 = (Inl (WriterError ''encoder closed''), 1)"
    by simp
  have a: "convert_audio failing_writer example_settings stale_writer ?empty 24000 ''wav'' 1 []
             False False None
           = (Inl (ValueError ''Failed to convert audio stream to wav: Empty audio data''),
              stale_writer)"
    using failure [where audio_chunk = ?empty and W = failing_writer and cfg = example_settings
        and S = stale_writer and rate = 24000 and speed = 1 and chunk_text = "[]"
        and is_first_chunk = False and is_last_chunk = False and normalizer = None,
        THEN conjunct1] n0
    by simp
  have b: "convert_audio failing_writer example_settings stale_writer ?half 24000 ''wav'' 0 []
             False False None
           = (Inl (ValueError ''Failed to convert audio stream to wav: float division by zero''),
              stale_writer)"
    using failure [where audio_chunk = ?half and W = failing_writer and cfg = example_settings
        and S = stale_writer and rate = 24000 and speed = 0 and chunk_text = "[]"
        and is_first_chunk = False and is_last_chunk = False and normalizer = None,
        THEN conjunct2, THEN conjunct1] n t0
    by simp
  have c: "convert_audio failing_writer example_settings no_writers ?half 24000 ''wav'' 1 []
             True False None
           = (Inl (ValueError ''Failed to convert audio stream to wav: disk full''),
              \<lparr> writers = [''wav_24000'' \<mapsto> 0],
                writer_calls = [Construct ''wav'' 24000, WriteChunk ''wav_24000''] \<rparr>)"
    using failure [where audio_chunk = ?half and W = failing_writer and cfg = example_settings
        and S = no_writers and rate = 24000 and speed = 1 and chunk_text = "[]"
        and is_first_chunk = True and is_last_chunk = False and normalizer = None,
        THEN conjunct2, THEN conjunct2, THEN conjunct1, rule_format,
        of "[16383]" ?loud 0 ?S1 "WriterError ''disk full''" 0]
      n t [of False] g [of failing_writer] w0
    by (simp add: writer_key_wav)
  have d: "convert_audio failing_finalizer example_settings no_writers ?half 24000 ''wav'' 1 []
             True True None
           = (Inl (ValueError ''Failed to convert audio stream to wav: encoder closed''),
              \<lparr> writers = [''wav_24000'' \<mapsto> 1],
                writer_calls = [Construct ''wav'' 24000, WriteChunk ''wav_24000'',
                                FinalizeChunk ''wav_24000''] \<rparr>)"
    using failure [where audio_chunk = ?half and W = failing_finalizer and cfg = example_settings
        and S = no_writers and rate = 24000 and speed = 1 and chunk_text = "[]"
        and is_first_chunk = True and is_last_chunk = True and normalizer = None,
        THEN conjunct2, THEN conjunct2, THEN conjunct2, THEN conjunct1, rule_format,
        of "[16383]" ?loud 0 ?S1 "Some [1]" 1 ?S2 "WriterError ''encoder closed''" 1]
      n t [of True] g [of failing_finalizer] w f0
    by (simp add: writer_key_wav)
  have e: "writers stale_writer ''wav_24000'' \<noteq> None"
    using failure [where audio_chunk = ?empty and W = failing_writer and cfg = example_settings
        and S = stale_writer and rate = 24000 and speed = 1 and chunk_text = "[]"
        and is_first_chunk = False and is_last_chunk = False and normalizer = None,
        THEN conjunct2, THEN conjunct2, THEN conjunct2, THEN conjunct2, rule_format,
        OF a, of "''wav_24000''"]
    by simp
  from fmt n0 a t0 b w0 c f0 d e show ?thesis by simp
qed

subsection \<open>The life of a writer\<close>

text \<open>
  Claim C2. Two calls for 24 kHz wav, the first with \<^verbatim>\<open>is_first_chunk\<close> and not
  \<^verbatim>\<open>is_last_chunk\<close>, the second the other way round and run in the state left by the
  first, both returning: the first call constructs one encoder-writer and writes to it; the
  second constructs none, makes at most one write and then the one finalize; the key
  \<^verbatim>\<open>wav_24000\<close> is live between the calls and absent after the second. So over both calls
  the constructor is called exactly once and the finalize exactly once, at the very end.
  That such calls return is \<open>convert_audio_returns\<close>.
\<close>

theorem writer_lifecycle:
  assumes "convert_audio W cfg S0 chunk1 24000 ''wav'' speed1 text1 True False normalizer1
             = (Inr result1, S1)"
    and "convert_audio W cfg S1 chunk2 24000 ''wav'' speed2 text2 False True normalizer2
             = (Inr result2, S2)"
  shows "\<exists>ws. writer_calls S1
                = writer_calls S0 @ [Construct ''wav'' 24000, WriteChunk ''wav_24000'']
            \<and> writer_calls S2 = writer_calls S1 @ ws @ [FinalizeChunk ''wav_24000'']
            \<and> (ws = [] \<or> ws = [WriteChunk ''wav_24000''])
            \<and> writers S1 ''wav_24000'' \<noteq> None
            \<and> writers S2 ''wav_24000'' = None"
proof -
  let ?key = "''wav_24000''"
  from assms(1) have "convert_audio_try W cfg S0 chunk1 24000 ''wav'' speed1 text1 True False
      normalizer1 = (Inr result1, S1)"
    by (simp only: convert_audio_Inr)
  from convert_audio_try_success [OF this] obtain w Sa samples chunk_data w2 where
    g1: "get_or_create_writer W S0 ''wav'' 24000 True = (Inr w, Sa)"
    and w1: "write_audio W Sa ?key w samples = (Inr chunk_data, w2, S1)"
    and written: "chunk_data \<noteq> None"
    by (auto simp: writer_key_wav)
  from g1 have Sa: "Sa = S0\<lparr> writers := (writers S0)(?key \<mapsto> w),
                        writer_calls := writer_calls S0 @ [Construct ''wav'' 24000] \<rparr>"
    by (auto simp: get_or_create_writer_def writer_key_wav Let_def split: sum.splits)
  from write_audio_cases [OF w1] written
  have S1: "S1 = Sa\<lparr> writers := (writers Sa)(?key \<mapsto> w2),
                        writer_calls := writer_calls Sa @ [WriteChunk ?key] \<rparr>"
    by auto
  have calls1: "writer_calls S1
                = writer_calls S0 @ [Construct ''wav'' 24000, WriteChunk ?key]"
    by (simp add: S1 Sa)
  have live: "writers S1 ?key = Some w2"
    by (simp add: S1)
  from assms(2) have "convert_audio_try W cfg S1 chunk2 24000 ''wav'' speed2 text2 False True
      normalizer2 = (Inr result2, S2)"
    by (simp only: convert_audio_Inr)
  from convert_audio_try_success [OF this] obtain w' Sb samples' chunk_data' w2' Sc where
    g2: "get_or_create_writer W S1 ''wav'' 24000 False = (Inr w', Sb)"
    and w2: "write_audio W Sb ?key w' samples' = (Inr chunk_data', w2', Sc)"
    and S2: "S2 = Sc\<lparr> writers := (writers Sc)(?key := None),
                       writer_calls := writer_calls Sc @ [FinalizeChunk ?key] \<rparr>"
    by (auto simp: writer_key_wav)
  from g2 live have Sb: "Sb = S1"
    by (simp add: get_or_create_writer_def writer_key_wav)
  from write_audio_cases [OF w2]
  have Sc: "writer_calls Sc = writer_calls S1 \<or> writer_calls Sc = writer_calls S1 @ [WriteChunk ?key]"
    by (auto simp: Sb)
  have "writer_calls S2 = writer_calls S1 @ [] @ [FinalizeChunk ?key]
      \<or> writer_calls S2 = writer_calls S1 @ [WriteChunk ?key] @ [FinalizeChunk ?key]"
    using Sc by (auto simp: S2)
  moreover have "writers S2 ?key = None"
    by (simp add: S2)
  ultimately show ?thesis
    using calls1 live by blast
qed

theorem writer_lifecycle_witness:
  "convert_audio counting_writer example_settings no_writers
      \<lparr> audio = [1 / 2], word_timestamps = None \<rparr> 24000 ''wav'' 1 [] True False None
     = (Inr ([1], \<lparr> audio = [16383], word_timestamps = None \<rparr>),
        \<lparr> writers = [''wav_24000'' \<mapsto> 1],
          writer_calls = [Construct ''wav'' 24000, WriteChunk ''wav_24000''] \<rparr>)
   \<and> convert_audio counting_writer example_settings
        \<lparr> writers = [''wav_24000'' \<mapsto> 1],
          writer_calls = [Construct ''wav'' 24000, WriteChunk ''wav_24000''] \<rparr>
        \<lparr> audio = [1 / 2], word_timestamps = None \<rparr> 24000 ''wav'' 1 [] False True None
     = (Inr ([2], \<lparr> audio = [16383], word_timestamps = None \<rparr>),
        \<lparr> writers = Map.empty,
          writer_calls = [Construct ''wav'' 24000, WriteChunk ''wav_24000'',
                          WriteChunk ''wav_24000'', FinalizeChunk ''wav_24000''] \<rparr>)
   \<and> writers \<lparr> writers = [''wav_24000'' \<mapsto> 1 :: nat],
          writer_calls = [Construct ''wav'' 24000, WriteChunk ''wav_24000''] \<rparr> ''wav_24000''
       \<noteq> None
   \<and> writers \<lparr> writers = (Map.empty :: string \<rightharpoonup> nat),
          writer_calls = [Construct ''wav'' 24000, WriteChunk ''wav_24000'',
                          WriteChunk ''wav_24000'', FinalizeChunk ''wav_24000''] \<rparr> ''wav_24000''
       = None"
proof -
  let ?half = "\<lparr> audio = [1 / 2], word_timestamps = None \<rparr> :: real audio_chunk"
  let ?loud = "\<lparr> audio = [16383], word_timestamps = None \<rparr> :: int16 audio_chunk"
  let ?S1 = "\<lparr> writers = [''wav_24000'' \<mapsto> 1 :: nat],
          writer_calls = [Construct ''wav'' 24000, WriteChunk ''wav_24000''] \<rparr>"
  let ?S2 = "\<lparr> writers = (Map.empty :: string \<rightharpoonup> nat),
          writer_calls = [Construct ''wav'' 24000, WriteChunk ''wav_24000'',
                          WriteChunk ''wav_24000'', FinalizeChunk ''wav_24000''] \<rparr>"
  have first: "convert_audio counting_writer example_settings no_writers ?half 24000 ''wav'' 1 []
                 True False None = (Inr ([1], ?loud), ?S1)"
    by (simp add: convert_audio_def convert_audio_try_def SUPPORTED_FORMATS_def normalize_half
          trim_single_loud get_or_create_writer_def write_audio_def writer_key_wav Let_def)
  have second: "convert_audio counting_writer example_settings ?S1 ?half 24000 ''wav'' 1 []
                 False True None = (Inr ([2], ?loud), ?S2)"
    by (simp add: convert_audio_def convert_audio_try_def SUPPORTED_FORMATS_def normalize_half
          trim_single_loud get_or_create_writer_def write_audio_def writer_key_wav Let_def)
  from writer_lifecycle [OF first second]
  have "writers ?S1 ''wav_24000'' \<noteq> None \<and> writers ?S2 ''wav_24000'' = None"
    by blast
  with first second show ?thesis by simp
qed

end
